theory Spec2Isabelle
  imports Complex_Main "HOL-Library.Word"
begin

chapter \<open>The model\<close>

text \<open>
  A shallow embedding of the mock-up compositor: the drag and resize handlers of the
  React component, the lighting-mask extractor, the depth-map normalisation, the batch
  renderer, the fragment shader of the fabric filter, and the depth provider with its
  caller. Each definition follows the JavaScript (or GLSL) function of the same name.
  What the browser, PIXI or the network does is a parameter of the function that asks
  for it.
\<close>

section \<open>Interaction controller (App.jsx)\<close>

text \<open>
  The React component keeps the placement of the design in two state cells,
  \<^verbatim>\<open>designPosition = {x, y}\<close> and \<^verbatim>\<open>designSize = {width, height}\<close>, together with the
  flags \<^verbatim>\<open>isDragging\<close>, \<^verbatim>\<open>isResizing\<close> and the cell \<^verbatim>\<open>dragOffset = {x, y}\<close>.
  Coordinates are JavaScript numbers; they are modelled as reals. The handlers only
  subtract, compare and take \<^verbatim>\<open>Math.max\<close>/\<^verbatim>\<open>Math.min\<close>.
\<close>

record position =
  pos_x :: real
  pos_y :: real

record dimensions =
  dim_width :: real
  dim_height :: real

record interaction =
  designPosition :: position
  designSize :: dimensions
  isDragging :: bool
  isResizing :: bool
  dragOffset :: position

text \<open>
  What the handlers read from \<^verbatim>\<open>containerRef.current\<close>: the bounding rectangle's
  \<^verbatim>\<open>left\<close> and \<^verbatim>\<open>top\<close>, and \<^verbatim>\<open>offsetWidth\<close>, \<^verbatim>\<open>offsetHeight\<close>.
\<close>

record container =
  rect_left :: real
  rect_top :: real
  offsetWidth :: real
  offsetHeight :: real

record mouse_event =
  clientX :: real
  clientY :: real

text \<open>The state a freshly loaded design gets (\<^verbatim>\<open>handleDesignChange\<close>, and the initial
  \<^verbatim>\<open>useState\<close> values).\<close>

definition initialInteraction :: interaction where
  "initialInteraction =
     \<lparr>designPosition = \<lparr>pos_x = 50, pos_y = 50\<rparr>,
      designSize = \<lparr>dim_width = 200, dim_height = 200\<rparr>,
      isDragging = False, isResizing = False,
      dragOffset = \<lparr>pos_x = 0, pos_y = 0\<rparr>\<rparr>"

definition handleMouseDown :: "container \<Rightarrow> mouse_event \<Rightarrow> interaction \<Rightarrow> interaction" where
  "handleMouseDown c ev s =
     (let x = clientX ev - rect_left c;
          y = clientY ev - rect_top c;
          handleSize = 20;
          resizeX = pos_x (designPosition s) + dim_width (designSize s) - handleSize;
          resizeY = pos_y (designPosition s) + dim_height (designSize s) - handleSize
      in if x \<ge> resizeX \<and> x \<le> resizeX + handleSize \<and> y \<ge> resizeY \<and> y \<le> resizeY + handleSize
         then s\<lparr>isResizing := True\<rparr>
         else if x \<ge> pos_x (designPosition s) \<and>
                 x \<le> pos_x (designPosition s) + dim_width (designSize s) \<and>
                 y \<ge> pos_y (designPosition s) \<and>
                 y \<le> pos_y (designPosition s) + dim_height (designSize s)
         then s\<lparr>isDragging := True,
                dragOffset := \<lparr>pos_x = x - pos_x (designPosition s),
                               pos_y = y - pos_y (designPosition s)\<rparr>\<rparr>
         else s)"

definition handleMouseMove :: "container \<Rightarrow> mouse_event \<Rightarrow> interaction \<Rightarrow> interaction" where
  "handleMouseMove c ev s =
     (if \<not> isDragging s \<and> \<not> isResizing s then s
      else
        let x = clientX ev - rect_left c;
            y = clientY ev - rect_top c
        in if isDragging s then
             (let newX = max 0 (min (x - pos_x (dragOffset s))
                                    (offsetWidth c - dim_width (designSize s)));
                  newY = max 0 (min (y - pos_y (dragOffset s))
                                    (offsetHeight c - dim_height (designSize s)))
              in s\<lparr>designPosition := \<lparr>pos_x = newX, pos_y = newY\<rparr>\<rparr>)
           else if isResizing s then
             (let newWidth = max 50 (x - pos_x (designPosition s));
                  newHeight = max 50 (y - pos_y (designPosition s));
                  constrainedWidth = min newWidth (offsetWidth c - pos_x (designPosition s));
                  constrainedHeight = min newHeight (offsetHeight c - pos_y (designPosition s))
              in s\<lparr>designSize := \<lparr>dim_width = constrainedWidth,
                                    dim_height = constrainedHeight\<rparr>\<rparr>)
           else s)"

definition handleMouseUp :: "interaction \<Rightarrow> interaction" where
  "handleMouseUp s = s\<lparr>isDragging := False, isResizing := False\<rparr>"

text \<open>Concrete containers and states used to run the handlers below.\<close>

definition wideContainer :: container where
  "wideContainer = \<lparr>rect_left = 10, rect_top = 20, offsetWidth = 800, offsetHeight = 600\<rparr>"

definition smallContainer :: container where
  "smallContainer = \<lparr>rect_left = 0, rect_top = 0, offsetWidth = 100, offsetHeight = 100\<rparr>"

definition narrowContainer :: container where
  "narrowContainer = \<lparr>rect_left = 0, rect_top = 0, offsetWidth = 340, offsetHeight = 340\<rparr>"

definition resizingNearEdge :: interaction where
  "resizingNearEdge =
     \<lparr>designPosition = \<lparr>pos_x = 300, pos_y = 300\<rparr>,
      designSize = \<lparr>dim_width = 50, dim_height = 50\<rparr>,
      isDragging = False, isResizing = True,
      dragOffset = \<lparr>pos_x = 0, pos_y = 0\<rparr>\<rparr>"

section \<open>Pixel data (canvas ImageData)\<close>

text \<open>
  \<^verbatim>\<open>ImageData.data\<close> is a \<^verbatim>\<open>Uint8ClampedArray\<close>: a flat array of bytes, four per pixel
  (red, green, blue, alpha), \<open>4 * width * height\<close> of them. A bitmap is identified with
  its dimensions and the bytes \<^verbatim>\<open>getImageData\<close> reads back from it.
\<close>

type_synonym byte = "8 word"

record bitmap =
  bm_width :: nat
  bm_height :: nat
  bm_data :: "byte list"

text \<open>
  Storing a number into a \<^verbatim>\<open>Uint8ClampedArray\<close> converts it with ECMAScript's
  \<^verbatim>\<open>ToUint8Clamp\<close>: clamp to \<open>[0, 255]\<close>, then round to the nearest integer, ties to
  even. The number to convert is given as the real number it denotes.
\<close>

definition toUint8Clamp :: "real \<Rightarrow> byte" where
  "toUint8Clamp number =
     (let clamped = min (max number 0) 255;
          f = \<lfloor>clamped\<rfloor>
      in if clamped < of_int f + 0.5 then word_of_int f
         else if clamped > of_int f + 0.5 then word_of_int (f + 1)
         else if even f then word_of_int f
         else word_of_int (f + 1))"

section \<open>JavaScript numbers\<close>

text \<open>
  A JavaScript number is an IEEE 754 double. It is modelled as the real number it
  denotes, and an arithmetic operation is the exact operation followed by rounding to
  the nearest double, ties to the even significand. The doubles from \<open>2^52\<close> to \<open>2^53\<close> are
  the integers; below that, halving a number halves the spacing, down to the spacing
  \<open>2^-1074\<close> of the subnormal numbers; above, doubling doubles the spacing. Infinities,
  \<^verbatim>\<open>NaN\<close> and the negative zero are not values of the model: the operations are used
  on finite numbers far below the overflow threshold, and with non-zero divisors only.
\<close>

definition roundEven :: "real \<Rightarrow> int" where
  "roundEven x =
     (let f = \<lfloor>x\<rfloor>
      in if x < of_int f + 1 / 2 then f
         else if of_int f + 1 / 2 < x then f + 1
         else if even f then f else f + 1)"

text \<open>
  Rounding a magnitude below \<open>2^53\<close>, with \<open>n\<close> halvings of the spacing left before the
  subnormal spacing is reached, and rounding a magnitude from \<open>2^53\<close> on.
\<close>

fun roundBelow :: "nat \<Rightarrow> real \<Rightarrow> real" where
  "roundBelow 0 x = of_int (roundEven x)"
| "roundBelow (Suc n) x =
     (if 2 ^ 52 \<le> x then of_int (roundEven x) else roundBelow n (2 * x) / 2)"

fun roundAbove :: "nat \<Rightarrow> real \<Rightarrow> real" where
  "roundAbove 0 x = of_int (roundEven x)"
| "roundAbove (Suc n) x =
     (if x < 2 ^ 53 then of_int (roundEven x) else 2 * roundAbove n (x / 2))"

definition roundMagnitude :: "real \<Rightarrow> real" where
  "roundMagnitude a = (if a < 2 ^ 53 then roundBelow 1074 a else roundAbove 971 a)"

definition toDouble :: "real \<Rightarrow> real" where
  "toDouble x = (if x < 0 then - roundMagnitude (- x) else roundMagnitude x)"

text \<open>The operators \<^verbatim>\<open>+\<close>, \<^verbatim>\<open>-\<close>, \<^verbatim>\<open>*\<close> and \<^verbatim>\<open>/\<close> on numbers. A decimal literal such as
  \<^verbatim>\<open>0.299\<close> denotes \<open>toDouble 0.299\<close>.\<close>

definition numAdd :: "real \<Rightarrow> real \<Rightarrow> real" where
  "numAdd x y = toDouble (x + y)"

definition numSub :: "real \<Rightarrow> real \<Rightarrow> real" where
  "numSub x y = toDouble (x - y)"

definition numMul :: "real \<Rightarrow> real \<Rightarrow> real" where
  "numMul x y = toDouble (x * y)"

definition numDiv :: "real \<Rightarrow> real \<Rightarrow> real" where
  "numDiv x y = toDouble (x / y)"

section \<open>Lighting masks (buildLightingMasksSimple)\<close>

text \<open>
  The three numbers the loop body computes for a pixel, in the double arithmetic of the
  source: \<^verbatim>\<open>brightness = (0.299 * r + 0.587 * g + 0.114 * b) / 255\<close>,
  \<^verbatim>\<open>shadowValue = Math.max(0, Math.min(1, 0.5 - brightness)) * 255\<close> and
  \<^verbatim>\<open>highlightValue = Math.max(0, Math.min(1, brightness - 0.5)) * 255\<close>. A byte read from
  the array is an integer, hence a double; so are 0, 0.5, 1 and 255.
\<close>

definition brightness :: "byte \<Rightarrow> byte \<Rightarrow> byte \<Rightarrow> real" where
  "brightness r g b =
     numDiv (numAdd (numAdd (numMul (toDouble 0.299) (real (unat r)))
                            (numMul (toDouble 0.587) (real (unat g))))
                    (numMul (toDouble 0.114) (real (unat b))))
            255"

definition shadowValue :: "real \<Rightarrow> real" where
  "shadowValue L = numMul (max 0 (min 1 (numSub 0.5 L))) 255"

definition highlightValue :: "real \<Rightarrow> real" where
  "highlightValue L = numMul (max 0 (min 1 (numSub L 0.5))) 255"

text \<open>
  The loop \<^verbatim>\<open>for (let i = 0; i < data.length; i += 4)\<close> reads \<^verbatim>\<open>data[i .. i+3]\<close> and
  writes the same four positions of \<^verbatim>\<open>shadowData\<close> and \<^verbatim>\<open>highlightData\<close>. The recursion
  takes the bytes four at a time and returns both arrays. An \<^verbatim>\<open>ImageData\<close> array always
  holds whole pixels; the last four equations say what the loop would do with a trailing
  partial pixel (a missing colour byte reads as \<^verbatim>\<open>undefined\<close>, the brightness is then
  \<^verbatim>\<open>NaN\<close>, which is stored as 0; a write past the end is ignored).
\<close>

fun maskLoop :: "byte list \<Rightarrow> byte list \<times> byte list" where
  "maskLoop (r # g # b # a # rest) =
     (let L = brightness r g b;
          s = toUint8Clamp (shadowValue L);
          h = toUint8Clamp (highlightValue L);
          (shadowData, highlightData) = maskLoop rest
      in (s # s # s # a # shadowData, h # h # h # a # highlightData))"
| "maskLoop [r, g, b] =
     (let L = brightness r g b;
          s = toUint8Clamp (shadowValue L);
          h = toUint8Clamp (highlightValue L)
      in ([s, s, s], [h, h, h]))"
| "maskLoop [r, g] = ([0, 0], [0, 0])"
| "maskLoop [r] = ([0], [0])"
| "maskLoop [] = ([], [])"

record lighting_masks =
  shadowMask :: bitmap
  highlightMask :: bitmap

definition buildLightingMasksSimple :: "bitmap \<Rightarrow> lighting_masks" where
  "buildLightingMasksSimple mockupBitmap =
     (let data = bm_data mockupBitmap;
          (shadowData, highlightData) = maskLoop data
      in \<lparr>shadowMask = \<lparr>bm_width = bm_width mockupBitmap, bm_height = bm_height mockupBitmap,
                          bm_data = shadowData\<rparr>,
          highlightMask = \<lparr>bm_width = bm_width mockupBitmap, bm_height = bm_height mockupBitmap,
                             bm_data = highlightData\<rparr>\<rparr>)"

text \<open>
  A five-pixel photo: black and opaque, white and nearly transparent, a dark green, and
  two colours whose shadow value falls within a rounding error of a half.
\<close>

definition mockupExample :: bitmap where
  "mockupExample = \<lparr>bm_width = 5, bm_height = 1,
     bm_data = [0, 0, 0, 255,  255, 255, 255, 7,  10, 200, 30, 0,
                127, 127, 127, 255,  0, 74, 233, 255]\<rparr>"

section \<open>Depth map normalisation (processDepthMap)\<close>

text \<open>
  \<^verbatim>\<open>processDepthMap\<close> uses two operations of the browser's 2D canvas, taken here as
  parameters: \<^verbatim>\<open>drawImage(bitmap, 0, 0, w, h)\<close> on a fresh \<open>w\<close> by \<open>h\<close> canvas, giving the
  canvas's pixels, and drawing the canvas onto itself under \<^verbatim>\<open>filter = 'blur(3px)'\<close>.
\<close>

record canvas2d =
  drawImageScaled :: "bitmap \<Rightarrow> nat \<Rightarrow> nat \<Rightarrow> byte list"
  drawBlurred :: "nat \<Rightarrow> byte list \<Rightarrow> byte list"

text \<open>
  The first loop scans \<^verbatim>\<open>data[i]\<close> for \<^verbatim>\<open>i = 0, 4, 8, ...\<close> (the red byte, "used as
  grayscale") and keeps the running \<^verbatim>\<open>min\<close> and \<^verbatim>\<open>max\<close>, which start at 255 and 0.
\<close>

fun minMaxLoop :: "byte list \<Rightarrow> nat \<times> nat \<Rightarrow> nat \<times> nat" where
  "minMaxLoop (r # g # b # a # rest) (mn, mx) =
     (let gray = unat r in minMaxLoop rest (min mn gray, max mx gray))"
| "minMaxLoop (r # rest) (mn, mx) = (let gray = unat r in (min mn gray, max mx gray))"
| "minMaxLoop [] (mn, mx) = (mn, mx)"

text \<open>
  The second loop stores \<^verbatim>\<open>(data[i] - min) / range * 255\<close> into the red, green and blue
  bytes of each pixel and leaves alpha. On a trailing partial pixel the writes past the
  end of the array are ignored. The difference is exact in doubles; the quotient and
  the product are taken here without their rounding.
\<close>

definition normalized :: "nat \<Rightarrow> int \<Rightarrow> byte \<Rightarrow> real" where
  "normalized mn range' r = (real (unat r) - real mn) / real_of_int range' * 255"

fun normalizeLoop :: "nat \<Rightarrow> int \<Rightarrow> byte list \<Rightarrow> byte list" where
  "normalizeLoop mn range' (r # g # b # a # rest) =
     (let v = toUint8Clamp (normalized mn range' r)
      in v # v # v # a # normalizeLoop mn range' rest)"
| "normalizeLoop mn range' [r, g, b] = (let v = toUint8Clamp (normalized mn range' r) in [v, v, v])"
| "normalizeLoop mn range' [r, g] = (let v = toUint8Clamp (normalized mn range' r) in [v, v])"
| "normalizeLoop mn range' [r] = (let v = toUint8Clamp (normalized mn range' r) in [v])"
| "normalizeLoop mn range' [] = []"

text \<open>
  Lines 165 to 183 of \<^verbatim>\<open>depthEstimation.js\<close>, from \<^verbatim>\<open>getImageData\<close> to the end of the
  rescaling: the scan, then the rescaling if \<^verbatim>\<open>range > 0\<close>.
\<close>

definition normalizeImageData :: "byte list \<Rightarrow> byte list" where
  "normalizeImageData data =
     (let (mn, mx) = minMaxLoop data (255, 0);
          range' = int mx - int mn
      in if range' > 0 then normalizeLoop mn range' data else data)"

definition processDepthMap :: "canvas2d \<Rightarrow> bitmap \<Rightarrow> bitmap" where
  "processDepthMap ctx depthBitmap =
     (let canvas = drawImageScaled ctx depthBitmap 1024 1024;
          data = drawBlurred ctx 3 canvas
      in \<lparr>bm_width = 1024, bm_height = 1024, bm_data = normalizeImageData data\<rparr>)"

text \<open>
  A canvas for one-coloured opaque sources: scaling fills the destination with the
  source's pixel, and blurring a one-coloured opaque canvas over itself leaves it as it
  is. It serves to run \<^verbatim>\<open>processDepthMap\<close> on a one-pixel bitmap.
\<close>

definition solidCanvas :: canvas2d where
  "solidCanvas =
     \<lparr>drawImageScaled = (\<lambda>src w h. concat (replicate (w * h) (take 4 (bm_data src)))),
      drawBlurred = (\<lambda>radius data. data)\<rparr>"

definition uniformDepth :: bitmap where
  "uniformDepth = \<lparr>bm_width = 1, bm_height = 1, bm_data = [90, 90, 90, 255]\<rparr>"

text \<open>Four pixels with the red bytes 10, 30, 20 and 13.\<close>

definition depthExample :: "byte list" where
  "depthExample = [10, 1, 2, 3,  30, 4, 5, 6,  20, 7, 8, 9,  13, 0, 0, 0]"

section \<open>Batch renderer (MockupRenderer.generateResults)\<close>

text \<open>
  A thrown exception, or the rejection of a promise that always settles, is a value
  \<open>Inl error\<close>; \<^verbatim>\<open>await\<close> in sequence is the error monad written out with \<^theory_text>\<open>case\<close>. A promise
  made with \<^verbatim>\<open>new Promise\<close> settles only if the code calls \<^verbatim>\<open>resolve\<close> or \<^verbatim>\<open>reject\<close>: its
  outcome is resolved, rejected, or pending for ever. An \<^verbatim>\<open>await\<close> of a pending promise
  never returns, so the promise of the awaiting function is pending as well.
\<close>

datatype js_error = JsError string

datatype 'a promise = Resolved (fulfilled: 'a) | Rejected js_error | Pending

definition settled :: "js_error + 'a \<Rightarrow> 'a promise" where
  "settled r = (case r of Inl error \<Rightarrow> Rejected error | Inr v \<Rightarrow> Resolved v)"

text \<open>A \<^verbatim>\<open>File\<close>: its name, its MIME type and its content.\<close>

record js_file =
  file_name :: string
  file_type :: string
  file_bytes :: "byte list"

text \<open>
  What a frame depends on: whether \<^verbatim>\<open>baseSprite.filters\<close> holds the fabric filter or is
  \<^verbatim>\<open>null\<close>, and the texture in \<^verbatim>\<open>fabricFilter.design\<close>. The renderer is taken after
  \<^verbatim>\<open>initialize\<close>, so the sprite and the filter exist. It carries \<^verbatim>\<open>this.results\<close>.
\<close>

record scene =
  filtersEnabled :: bool
  designTexture :: bitmap

record composite_result =
  res_name :: string
  res_image :: string

record renderer =
  stage :: scene
  results :: "composite_result list"

text \<open>
  An \<^verbatim>\<open>Image\<close> element that has loaded: the code reads its \<^verbatim>\<open>width\<close> and \<^verbatim>\<open>height\<close> and draws
  it. The text of a file is a string of UTF-16 code units.
\<close>

record html_image =
  img_width :: nat
  img_height :: nat
  img_src :: string

type_synonym js_text = "16 word list"

text \<open>
  The operations of the browser and of PIXI whose outcome the code does not determine:
  \<^descr> \<^verbatim>\<open>createImageBitmap(file)\<close>, which resolves or rejects;
  \<^descr> \<^verbatim>\<open>FileReader.readAsText\<close>, which ends with \<^verbatim>\<open>onload\<close> and the text or with \<^verbatim>\<open>onerror\<close>;
  \<^descr> the assignment of a URL to \<^verbatim>\<open>img.src\<close>, which ends with \<^verbatim>\<open>onload\<close> or with \<^verbatim>\<open>onerror\<close>;
  \<^descr> \<^verbatim>\<open>ctx.drawImage(img, 0, 0)\<close> on a fresh canvas of a width and a height, giving the
    canvas's pixels or throwing, and \<^verbatim>\<open>createImageBitmap(canvas)\<close>;
  \<^descr> whether the texture \<^verbatim>\<open>PIXI.Texture.from(bitmap)\<close> is \<^verbatim>\<open>valid\<close> when it is made, and
    whether its base texture emits \<^verbatim>\<open>loaded\<close> later;
  \<^descr> \<^verbatim>\<open>app.render()\<close> and \<^verbatim>\<open>renderer.extract.base64(stage)\<close>, which can throw.
\<close>

record browser =
  createImageBitmap :: "js_file \<Rightarrow> js_error + bitmap"
  readAsText :: "js_file \<Rightarrow> js_error + js_text"
  loadImage :: "string \<Rightarrow> js_error + html_image"
  drawImage :: "html_image \<Rightarrow> nat \<Rightarrow> nat \<Rightarrow> js_error + byte list"
  createImageBitmapOfCanvas :: "bitmap \<Rightarrow> js_error + bitmap"
  textureValid :: "bitmap \<Rightarrow> bool"
  textureLoads :: "bitmap \<Rightarrow> bool"
  render :: "scene \<Rightarrow> js_error + unit"
  extractBase64 :: "scene \<Rightarrow> js_error + string"

text \<open>\<^verbatim>\<open>String.prototype.startsWith\<close> and the decimal form of a number in a template
  literal.\<close>

definition startsWith :: "string \<Rightarrow> string \<Rightarrow> bool" where
  "startsWith s p = (take (length p) s = p)"

definition digitChar :: "nat \<Rightarrow> char" where
  "digitChar d = ''0123456789'' ! d"

function numberToString :: "nat \<Rightarrow> string" where
  "numberToString n =
     (if n < 10 then [digitChar n] else numberToString (n div 10) @ [digitChar (n mod 10)])"
  by pat_completeness auto
termination
  by (relation "measure id") auto

text \<open>
  \<^verbatim>\<open>btoa\<close>: the base64 form of a string whose code units are all below 256, three bytes
  to four digits with \<^verbatim>\<open>=\<close> as padding; it throws an \<^verbatim>\<open>InvalidCharacterError\<close> when
  the string holds any other code unit.
\<close>

definition base64Digit :: "nat \<Rightarrow> char" where
  "base64Digit n = ''ABCDEFGHIJKLMNOPQRSTUVWXYZabcdefghijklmnopqrstuvwxyz0123456789+/'' ! n"

fun base64Encode :: "nat list \<Rightarrow> string" where
  "base64Encode (a # b # c # rest) =
     base64Digit (a div 4) # base64Digit (a mod 4 * 16 + b div 16)
       # base64Digit (b mod 16 * 4 + c div 64) # base64Digit (c mod 64) # base64Encode rest"
| "base64Encode [a, b] =
     [base64Digit (a div 4), base64Digit (a mod 4 * 16 + b div 16), base64Digit (b mod 16 * 4),
      CHR ''='']"
| "base64Encode [a] = [base64Digit (a div 4), base64Digit (a mod 4 * 16), CHR ''='', CHR ''='']"
| "base64Encode [] = []"

definition btoa :: "js_text \<Rightarrow> js_error + string" where
  "btoa s =
     (if list_all (\<lambda>c. unat c < 256) s then Inr (base64Encode (map unat s))
      else Inl (JsError ''InvalidCharacterError''))"

text \<open>
  \<^verbatim>\<open>convertSvgToBitmap\<close> returns a promise made with \<^verbatim>\<open>new Promise\<close>. \<^verbatim>\<open>reader.onerror\<close> and
  \<^verbatim>\<open>img.onerror\<close> are \<^verbatim>\<open>reject\<close>, and the body of \<^verbatim>\<open>img.onload\<close> is a \<^verbatim>\<open>try\<close> block whose
  \<^verbatim>\<open>catch\<close> calls \<^verbatim>\<open>reject\<close>. The call of \<^verbatim>\<open>btoa\<close> is in \<^verbatim>\<open>reader.onload\<close>, outside any \<^verbatim>\<open>try\<close>:
  when it throws, the handler ends there, no image is loaded, and neither \<^verbatim>\<open>resolve\<close> nor
  \<^verbatim>\<open>reject\<close> is ever called. The canvas is \<^verbatim>\<open>img.width || 200\<close> wide and
  \<^verbatim>\<open>img.height || 200\<close> high.
\<close>

definition convertSvgToBitmap :: "browser \<Rightarrow> js_file \<Rightarrow> bitmap promise" where
  "convertSvgToBitmap env svgFile =
     (case readAsText env svgFile of
        Inl error \<Rightarrow> Rejected error
      | Inr svgText \<Rightarrow>
     (case btoa svgText of
        Inl error \<Rightarrow> Pending
      | Inr encoded \<Rightarrow>
     (case loadImage env (''data:image/svg+xml;base64,'' @ encoded) of
        Inl error \<Rightarrow> Rejected error
      | Inr img \<Rightarrow>
     (let width = (if img_width img = 0 then 200 else img_width img);
          height = (if img_height img = 0 then 200 else img_height img)
      in case drawImage env img width height of
           Inl error \<Rightarrow> Rejected error
         | Inr pixels \<Rightarrow>
             settled (createImageBitmapOfCanvas env
                        \<lparr>bm_width = width, bm_height = height, bm_data = pixels\<rparr>)))))"

text \<open>The data URL pushed for a failed design ("1x1 transparent PNG" in the source).\<close>

definition placeholderImage :: string where
  "placeholderImage =
     ''data:image/png;base64,iVBORw0KGgoAAAANSUhEUgAAAAEAAAABCAYAAAAfFcSJAAAADUlEQVR42mNkYPhfDwAChwGA60e6kgAAAABJRU5ErkJggg==''"

definition captureFrame :: "browser \<Rightarrow> scene \<Rightarrow> js_error + string" where
  "captureFrame env sc =
     (case render env sc of
        Inl error \<Rightarrow> Inl error
      | Inr _ \<Rightarrow>
          (case extractBase64 env sc of
             Inl error \<Rightarrow> Inl error
           | Inr base64 \<Rightarrow> Inr base64))"

text \<open>
  The body of the loop. \<open>tryDesign\<close> is the \<^verbatim>\<open>try\<close> block up to the capture: its outcome is
  the captured image, the error thrown, or pending when one of its awaits never
  returns, with the renderer as the block left it. The wait for the texture resolves
  when the texture is valid or its base texture emits \<^verbatim>\<open>loaded\<close>; the wait of 50 ms always
  resolves. \<open>processDesign\<close> adds the result the \<^verbatim>\<open>try\<close> block or the \<^verbatim>\<open>catch\<close> block pushes;
  it has no value when the \<^verbatim>\<open>try\<close> block stays pending.
\<close>

definition decodeDesign :: "browser \<Rightarrow> js_file \<Rightarrow> bitmap promise" where
  "decodeDesign env designFile =
     (if startsWith (file_type designFile) ''image/svg''
      then convertSvgToBitmap env designFile
      else settled (createImageBitmap env designFile))"

definition pushResult :: "string \<Rightarrow> string \<Rightarrow> renderer \<Rightarrow> renderer" where
  "pushResult n img st = st\<lparr>results := results st @ [\<lparr>res_name = n, res_image = img\<rparr>]\<rparr>"

definition failedName :: "nat \<Rightarrow> js_file \<Rightarrow> string" where
  "failedName i designFile =
     ''Design '' @ numberToString (i + 1) @ '': '' @ file_name designFile @ '' (Failed)''"

definition designName :: "nat \<Rightarrow> js_file \<Rightarrow> string" where
  "designName i designFile = ''Design '' @ numberToString (i + 1) @ '': '' @ file_name designFile"

definition tryDesign :: "browser \<Rightarrow> js_file \<Rightarrow> renderer \<Rightarrow> string promise \<times> renderer" where
  "tryDesign env designFile st =
     (case decodeDesign env designFile of
        Pending \<Rightarrow> (Pending, st)
      | Rejected error \<Rightarrow> (Rejected error, st)
      | Resolved designBitmap \<Rightarrow>
          if \<not> textureValid env designBitmap \<and> \<not> textureLoads env designBitmap
          then (Pending, st)
          else
            (let st1 = st\<lparr>stage := (stage st)\<lparr>designTexture := designBitmap\<rparr>\<rparr>
             in case render env (stage st1) of
                  Inl error \<Rightarrow> (Rejected error, st1)
                | Inr _ \<Rightarrow> (settled (captureFrame env (stage st1)), st1)))"

definition processDesign :: "browser \<Rightarrow> nat \<Rightarrow> js_file \<Rightarrow> renderer \<Rightarrow> renderer option" where
  "processDesign env i designFile st =
     (case tryDesign env designFile st of
        (Resolved resultImage, st') \<Rightarrow> Some (pushResult (designName i designFile) resultImage st')
      | (Rejected designError, st') \<Rightarrow>
          Some (pushResult (failedName i designFile) placeholderImage st')
      | (Pending, st') \<Rightarrow> None)"

fun designLoop :: "browser \<Rightarrow> nat \<Rightarrow> js_file list \<Rightarrow> renderer \<Rightarrow> renderer option" where
  "designLoop env i [] st = Some st"
| "designLoop env i (designFile # designFiles) st =
     (case processDesign env i designFile st of
        None \<Rightarrow> None
      | Some st' \<Rightarrow> designLoop env (i + 1) designFiles st')"

text \<open>
  \<^verbatim>\<open>generateResults\<close>: the outer \<^verbatim>\<open>catch\<close> rethrows, so an error of the first render or of
  the capture of the original rejects the promise returned; the promise stays pending
  when an iteration of the loop does.
\<close>

definition generateResults :: "browser \<Rightarrow> renderer \<Rightarrow> js_file list \<Rightarrow> renderer promise" where
  "generateResults env st designFiles =
     (let st0 = st\<lparr>results := []\<rparr>;
          originalFilters = filtersEnabled (stage st0);
          st1 = st0\<lparr>stage := (stage st0)\<lparr>filtersEnabled := False\<rparr>\<rparr>
      in case render env (stage st1) of
           Inl error \<Rightarrow> Rejected error
         | Inr _ \<Rightarrow>
             (case captureFrame env (stage st1) of
                Inl error \<Rightarrow> Rejected error
              | Inr originalImage \<Rightarrow>
                  (let st2 = pushResult ''Original Mockup'' originalImage st1;
                       st3 = st2\<lparr>stage := (stage st2)\<lparr>filtersEnabled := originalFilters\<rparr>\<rparr>
                   in case designLoop env 0 designFiles st3 of
                        None \<Rightarrow> Pending
                      | Some st' \<Rightarrow> Resolved st')))"



declare numberToString.simps [simp del]

text \<open>
  A browser to run the batch on. A file without content does not decode; the text of a
  file is its bytes, one code unit each; a data URL loads as an image of one pixel
  when the text behind it starts with \<^verbatim>\<open><svg\<close>; drawing paints every pixel of the canvas
  grey; textures are valid at once; rendering succeeds, and the captured frame names the
  first byte of the design texture.
\<close>

definition whiteTexture :: bitmap where
  "whiteTexture = \<lparr>bm_width = 1, bm_height = 1, bm_data = [255, 255, 255, 255]\<rparr>"

definition demoBrowser :: browser where
  "demoBrowser =
     \<lparr>createImageBitmap =
        (\<lambda>f. if file_bytes f = [] then Inl (JsError ''The source image could not be decoded.'')
             else Inr \<lparr>bm_width = 1, bm_height = 1, bm_data = take 4 (file_bytes f)\<rparr>),
      readAsText = (\<lambda>f. Inr (map (\<lambda>b. of_nat (unat b)) (file_bytes f))),
      loadImage =
        (\<lambda>url. if startsWith url ''data:image/svg+xml;base64,PHN2Z''
               then Inr \<lparr>img_width = 1, img_height = 1, img_src = url\<rparr>
               else Inl (JsError ''error'')),
      drawImage = (\<lambda>img w h. Inr (concat (replicate (w * h) [7, 7, 7, 255]))),
      createImageBitmapOfCanvas = (\<lambda>canvas. Inr canvas),
      textureValid = (\<lambda>b. True),
      textureLoads = (\<lambda>b. False),
      render = (\<lambda>sc. Inr ()),
      extractBase64 =
        (\<lambda>sc. Inr (if filtersEnabled sc
                     then ''frame '' @ numberToString (unat (bm_data (designTexture sc) ! 0))
                     else ''frame base''))\<rparr>"

definition demoRenderer :: renderer where
  "demoRenderer =
     \<lparr>stage = \<lparr>filtersEnabled = True, designTexture = whiteTexture\<rparr>, results = []\<rparr>"


text \<open>The same browser with a capture that throws.\<close>

definition lostContextBrowser :: browser where
  "lostContextBrowser = demoBrowser\<lparr>extractBase64 := (\<lambda>sc. Inl (JsError ''WebGL context lost''))\<rparr>"



section \<open>Fragment shader (FabricWrapFilter)\<close>

text \<open>
  GLSL's \<^verbatim>\<open>float\<close> is modelled as a real number: the shader's arithmetic is taken exactly,
  without the rounding of \<^verbatim>\<open>mediump\<close> floats. A \<^verbatim>\<open>sampler2D\<close> is the function from a
  texture coordinate to the colour \<^verbatim>\<open>texture2D\<close> returns there.
\<close>

record vec3 =
  v_r :: real
  v_g :: real
  v_b :: real

record vec4 =
  c_r :: real
  c_g :: real
  c_b :: real
  c_a :: real

type_synonym vec2 = "real \<times> real"

type_synonym sampler2D = "vec2 \<Rightarrow> vec4"

record uniforms =
  uSampler :: sampler2D
  uDisp :: sampler2D
  uShadow :: sampler2D
  uHighlight :: sampler2D
  uDesign :: sampler2D
  uStrength :: real
  uShadowPower :: real
  uHighlightPower :: real

text \<open>
  The built-in functions and the vector operators the shader uses: \<^verbatim>\<open>.rgb\<close>, \<^verbatim>\<open>clamp\<close>,
  \<^verbatim>\<open>mix\<close>, and \<^verbatim>\<open>+\<close>, \<^verbatim>\<open>*\<close> between vectors and between a vector and a scalar, all
  componentwise.
\<close>

definition texture2D :: "sampler2D \<Rightarrow> vec2 \<Rightarrow> vec4" where
  "texture2D sampler coord = sampler coord"

definition rgb :: "vec4 \<Rightarrow> vec3" where
  "rgb c = \<lparr>v_r = c_r c, v_g = c_g c, v_b = c_b c\<rparr>"

definition clamp :: "real \<Rightarrow> real \<Rightarrow> real \<Rightarrow> real" where
  "clamp x minVal maxVal = min (max x minVal) maxVal"

definition mix :: "real \<Rightarrow> real \<Rightarrow> real \<Rightarrow> real" where
  "mix x y a = x * (1 - a) + y * a"

definition vec2_add_scalar :: "vec2 \<Rightarrow> real \<Rightarrow> vec2" where
  "vec2_add_scalar v s = (fst v + s, snd v + s)"

definition vec2_clamp :: "vec2 \<Rightarrow> real \<Rightarrow> real \<Rightarrow> vec2" where
  "vec2_clamp v minVal maxVal = (clamp (fst v) minVal maxVal, clamp (snd v) minVal maxVal)"

definition vec3_mul :: "vec3 \<Rightarrow> vec3 \<Rightarrow> vec3" where
  "vec3_mul u v = \<lparr>v_r = v_r u * v_r v, v_g = v_g u * v_g v, v_b = v_b u * v_b v\<rparr>"

definition vec3_scale :: "vec3 \<Rightarrow> real \<Rightarrow> vec3" where
  "vec3_scale v s = \<lparr>v_r = v_r v * s, v_g = v_g v * s, v_b = v_b v * s\<rparr>"

definition vec3_add_scalar :: "vec3 \<Rightarrow> real \<Rightarrow> vec3" where
  "vec3_add_scalar v s = \<lparr>v_r = v_r v + s, v_g = v_g v + s, v_b = v_b v + s\<rparr>"

definition vec3_mix :: "vec3 \<Rightarrow> vec3 \<Rightarrow> real \<Rightarrow> vec3" where
  "vec3_mix x y a = \<lparr>v_r = mix (v_r x) (v_r y) a, v_g = mix (v_g x) (v_g y) a,
                      v_b = mix (v_b x) (v_b y) a\<rparr>"

definition vec3_clamp :: "vec3 \<Rightarrow> real \<Rightarrow> real \<Rightarrow> vec3" where
  "vec3_clamp v minVal maxVal =
     \<lparr>v_r = clamp (v_r v) minVal maxVal, v_g = clamp (v_g v) minVal maxVal,
      v_b = clamp (v_b v) minVal maxVal\<rparr>"

text \<open>\<^verbatim>\<open>main\<close> of the fragment shader, statement by statement; the value is
  \<^verbatim>\<open>gl_FragColor\<close>.\<close>

definition fragmentMain :: "uniforms \<Rightarrow> vec2 \<Rightarrow> vec4" where
  "fragmentMain u vUV =
     (let base = texture2D (uSampler u) vUV;
          composite = rgb base;
          displacement = c_r (texture2D (uDisp u) vUV);
          warp = vec2_add_scalar vUV ((displacement - 0.5) * uStrength u * 0.2);
          warp = vec2_clamp warp 0.0 1.0;
          design = texture2D (uDesign u) warp;
          composite =
            (if c_a design > 0.1
             then (let fabricColor = vec3_mul (rgb base) (rgb design)
                   in vec3_mix (rgb base) fabricColor (c_a design * 0.8))
             else composite);
          shadow = c_r (texture2D (uShadow u) vUV);
          highlight = c_r (texture2D (uHighlight u) vUV);
          composite = vec3_scale composite (1.0 - shadow * uShadowPower u * 0.6);
          composite = vec3_add_scalar composite (highlight * uHighlightPower u * 0.4);
          composite = vec3_clamp composite 0.0 1.0
      in \<lparr>c_r = v_r composite, c_g = v_g composite, c_b = v_b composite, c_a = 1.0\<rparr>)"

text \<open>
  The specification of \<^verbatim>\<open>render()\<close>, in its own words and one colour channel at a time:
  blend if the design's alpha exceeds 0.1, darken by the shadow, add the highlight,
  clamp.
\<close>

definition renderChannel ::
  "real \<Rightarrow> real \<Rightarrow> real \<Rightarrow> real \<Rightarrow> real \<Rightarrow> real \<Rightarrow> real \<Rightarrow> real" where
  "renderChannel B designChannel designAlpha shadow shadowPower highlight highlightPower =
     (let blended = (if designAlpha > 0.1 then mix B (B * designChannel) (designAlpha * 0.8) else B);
          shaded = blended * (1 - shadow * shadowPower * 0.6);
          lit = shaded + highlight * highlightPower * 0.4
      in clamp lit 0 1)"

definition renderSpec :: "uniforms \<Rightarrow> vec2 \<Rightarrow> vec4" where
  "renderSpec u coord =
     (let B = uSampler u coord;
          D = c_r (uDisp u coord);
          offset = (D - 0.5) * uStrength u * 0.2;
          design = uDesign u (clamp (fst coord + offset) 0 1, clamp (snd coord + offset) 0 1);
          shadow = c_r (uShadow u coord);
          highlight = c_r (uHighlight u coord)
      in \<lparr>c_r = renderChannel (c_r B) (c_r design) (c_a design)
                   shadow (uShadowPower u) highlight (uHighlightPower u),
          c_g = renderChannel (c_g B) (c_g design) (c_a design)
                   shadow (uShadowPower u) highlight (uHighlightPower u),
          c_b = renderChannel (c_b B) (c_b design) (c_a design)
                   shadow (uShadowPower u) highlight (uHighlightPower u),
          c_a = 1\<rparr>)"

text \<open>
  Uniforms to run the shader on: a grey base, a constant depth of 0.75, and a design
  that is transparent left of the middle and opaque red from the middle on.
\<close>

definition exampleUniforms :: uniforms where
  "exampleUniforms =
     \<lparr>uSampler = (\<lambda>p. \<lparr>c_r = 0.5, c_g = 0.5, c_b = 0.5, c_a = 1\<rparr>),
      uDisp = (\<lambda>p. \<lparr>c_r = 0.75, c_g = 0.75, c_b = 0.75, c_a = 1\<rparr>),
      uShadow = (\<lambda>p. \<lparr>c_r = 0.2, c_g = 0.2, c_b = 0.2, c_a = 1\<rparr>),
      uHighlight = (\<lambda>p. \<lparr>c_r = 0, c_g = 0, c_b = 0, c_a = 1\<rparr>),
      uDesign = (\<lambda>p. if fst p < 0.5 then \<lparr>c_r = 0, c_g = 0, c_b = 0, c_a = 0\<rparr>
                     else \<lparr>c_r = 1, c_g = 0, c_b = 0, c_a = 1\<rparr>),
      uStrength = 0.1, uShadowPower = 0.3, uHighlightPower = 0.2\<rparr>"

section \<open>Depth provider (getDepthMap) and its caller\<close>

text \<open>
  Of an HTTP response the code reads \<^verbatim>\<open>ok\<close>, \<^verbatim>\<open>status\<close>, the text, the blob, and, through
  \<^verbatim>\<open>(await response.json()).image?.url\<close>, the depth image's URL: an error when the payload
  is not JSON, nothing when the URL is missing or empty.
\<close>

record response =
  ok :: bool
  status :: nat
  text_body :: string
  image_url :: "js_error + string option"
  blob :: "byte list"

text \<open>
  The services \<^verbatim>\<open>getDepthMap\<close> calls: reading the file as a data URL, \<^verbatim>\<open>fetch\<close> (with the
  body of a POST, if any), \<^verbatim>\<open>createImageBitmap\<close> of a blob and of a file, and the canvas
  drawing the fallback's gradients for a width and a height.
\<close>

record depth_services =
  fileToBase64 :: "js_file \<Rightarrow> js_error + string"
  fetch :: "string \<Rightarrow> string option \<Rightarrow> js_error + response"
  createImageBitmapOfBlob :: "byte list \<Rightarrow> js_error + bitmap"
  createImageBitmapOfFile :: "js_file \<Rightarrow> js_error + bitmap"
  fillFallbackGradients :: "nat \<Rightarrow> nat \<Rightarrow> byte list"

definition getDepthMapFAL :: "depth_services \<Rightarrow> js_file \<Rightarrow> js_error + bitmap" where
  "getDepthMapFAL env imageFile =
     (case fileToBase64 env imageFile of
        Inl error \<Rightarrow> Inl error
      | Inr imageBase64 \<Rightarrow>
     (case fetch env ''https://fal.run/fal-ai/imageutils/depth'' (Some imageBase64) of
        Inl error \<Rightarrow> Inl error
      | Inr response \<Rightarrow>
     if \<not> ok response
     then Inl (JsError (''FAL depth estimation failed: '' @ numberToString (status response)
                        @ '' - '' @ text_body response))
     else
     (case image_url response of
        Inl error \<Rightarrow> Inl error
      | Inr None \<Rightarrow> Inl (JsError ''No depth map URL in FAL response'')
      | Inr (Some depthImageUrl) \<Rightarrow>
     (case fetch env depthImageUrl None of
        Inl error \<Rightarrow> Inl error
      | Inr depthResponse \<Rightarrow>
     if \<not> ok depthResponse
     then Inl (JsError (''Failed to fetch depth image: '' @ numberToString (status depthResponse)))
     else
     (case createImageBitmapOfBlob env (blob depthResponse) of
        Inl error \<Rightarrow> Inl error
      | Inr depthBitmap \<Rightarrow> Inr depthBitmap)))))"

definition createFallbackDepthMap :: "depth_services \<Rightarrow> js_file \<Rightarrow> js_error + bitmap" where
  "createFallbackDepthMap env imageFile =
     (case createImageBitmapOfFile env imageFile of
        Inl error \<Rightarrow> Inl error
      | Inr img \<Rightarrow>
          Inr \<lparr>bm_width = bm_width img, bm_height = bm_height img,
               bm_data = fillFallbackGradients env (bm_width img) (bm_height img)\<rparr>)"

definition getDepthMap :: "depth_services \<Rightarrow> js_file \<Rightarrow> js_error + bitmap" where
  "getDepthMap env imageFile =
     (case getDepthMapFAL env imageFile of
        Inr depthBitmap \<Rightarrow> Inr depthBitmap
      | Inl error \<Rightarrow> createFallbackDepthMap env imageFile)"

text \<open>
  The caller destructures the resolved value: \<^verbatim>\<open>const { depthMap, method } = await
  getDepthMap(file)\<close>. The values this needs, and the reading of a property: an
  \<^verbatim>\<open>ImageBitmap\<close> has \<^verbatim>\<open>width\<close> and \<^verbatim>\<open>height\<close>, and any other property of it reads as
  \<^verbatim>\<open>undefined\<close>.
\<close>

datatype js_value = Undefined | JsNumber nat | JsString string | JsBitmap bitmap

definition property :: "js_value \<Rightarrow> string \<Rightarrow> js_value" where
  "property v key =
     (case v of
        JsBitmap b \<Rightarrow>
          (if key = ''width'' then JsNumber (bm_width b)
           else if key = ''height'' then JsNumber (bm_height b)
           else Undefined)
      | JsString s \<Rightarrow> (if key = ''length'' then JsNumber (length s) else Undefined)
      | _ \<Rightarrow> Undefined)"

text \<open>
  \<^verbatim>\<open>initializeMockupProcessing\<close> (App.jsx 100 to 160): the \<^verbatim>\<open>try\<close> block up to the first
  use of \<^verbatim>\<open>depthMap\<close>, the rest of the block as the parameter \<open>continue\<close>, and the
  \<^verbatim>\<open>catch\<close> block as \<open>processingFailed\<close>. Reading \<^verbatim>\<open>depthMap.width\<close> of \<^verbatim>\<open>undefined\<close> throws
  a \<^verbatim>\<open>TypeError\<close>.
\<close>

record app_state =
  depthMapMethod :: js_value
  processingStep :: string
  isProcessing :: bool
  isInitialized :: bool

definition message :: "js_error \<Rightarrow> string" where
  "message e = (case e of JsError m \<Rightarrow> m)"

definition processingFailed :: "js_error \<Rightarrow> app_state \<Rightarrow> app_state" where
  "processingFailed error st =
     st\<lparr>processingStep := ''Error: '' @ message error, isProcessing := False\<rparr>"

definition initializeMockupProcessing ::
  "depth_services \<Rightarrow> (bitmap \<Rightarrow> app_state \<Rightarrow> js_error + app_state) \<Rightarrow> js_file \<Rightarrow> app_state
     \<Rightarrow> app_state" where
  "initializeMockupProcessing env continue file st =
     (let st1 = st\<lparr>processingStep := ''Analyzing depth information...''\<rparr>
      in case getDepthMap env file of
           Inl error \<Rightarrow> processingFailed error st1
         | Inr resolved \<Rightarrow>
             (let depthMap = property (JsBitmap resolved) ''depthMap'';
                  method = property (JsBitmap resolved) ''method'';
                  st2 = st1\<lparr>depthMapMethod := method\<rparr>
              in case depthMap of
                   Undefined \<Rightarrow> processingFailed (JsError ''depthMap is undefined'') st2
                 | JsBitmap b \<Rightarrow>
                     (case continue b st2 of
                        Inl error \<Rightarrow> processingFailed error st2
                      | Inr st3 \<Rightarrow> st3)
                 | _ \<Rightarrow> processingFailed (JsError ''drawImage: not an image source'') st2))"

text \<open>
  Services where FAL answers with a one-pixel depth image, the same services without
  network, a photo that decodes and a file that does not.
\<close>

definition falServices :: depth_services where
  "falServices =
     \<lparr>fileToBase64 = (\<lambda>f. Inr ''data:image/png;base64,AAAA''),
      fetch = (\<lambda>url body.
         if url = ''https://fal.run/fal-ai/imageutils/depth''
         then Inr \<lparr>ok = True, status = 200, text_body = [],
                    image_url = Inr (Some ''https://fal.media/files/depth.png''), blob = []\<rparr>
         else Inr \<lparr>ok = True, status = 200, text_body = [],
                    image_url = Inr None, blob = [7, 7, 7, 255]\<rparr>),
      createImageBitmapOfBlob = (\<lambda>bytes. Inr \<lparr>bm_width = 1, bm_height = 1, bm_data = bytes\<rparr>),
      createImageBitmapOfFile =
        (\<lambda>f. if file_bytes f = [] then Inl (JsError ''The source image could not be decoded.'')
             else Inr \<lparr>bm_width = 1, bm_height = 1, bm_data = take 4 (file_bytes f)\<rparr>),
      fillFallbackGradients = (\<lambda>w h. replicate (4 * w * h) 128)\<rparr>"

definition offlineServices :: depth_services where
  "offlineServices = falServices\<lparr>fetch := (\<lambda>url body. Inl (JsError ''Failed to fetch''))\<rparr>"

definition photoFile :: js_file where
  "photoFile = \<lparr>file_name = ''shirt.png'', file_type = ''image/png'',
                 file_bytes = [200, 200, 200, 255]\<rparr>"

definition undecodableFile :: js_file where
  "undecodableFile = \<lparr>file_name = ''shirt.svg'', file_type = ''image/svg+xml'', file_bytes = []\<rparr>"

definition freshApp :: app_state where
  "freshApp = \<lparr>depthMapMethod = Undefined, processingStep = [], isProcessing = True,
                isInitialized = False\<rparr>"

definition readyContinuation :: "bitmap \<Rightarrow> app_state \<Rightarrow> js_error + app_state" where
  "readyContinuation depthMap st = Inr (st\<lparr>processingStep := ''Ready!'', isInitialized := True\<rparr>)"

chapter \<open>Verified properties\<close>

section \<open>Properties of the interaction controller\<close>

lemma handleMouseDown_inside_starts_drag:
  "handleMouseDown smallContainer \<lparr>clientX = 60, clientY = 60\<rparr> initialInteraction =
     initialInteraction\<lparr>isDragging := True, dragOffset := \<lparr>pos_x = 10, pos_y = 10\<rparr>\<rparr>"
  by (simp add: handleMouseDown_def smallContainer_def initialInteraction_def Let_def)

text \<open>
  Claim C6, as the specification states it: while dragging, the new origin never lies
  outside \<open>[0, containerSize - placementSize]\<close>, for any pointer input.

  This fails when the placement is larger than the container. A 100 by 100 container
  holds the default 200 by 200 placement at (50, 50); a press at (60, 60) starts a drag
  and a move to (70, 70) gives the origin 0 on the horizontal axis, which is not in
  the (empty) interval from 0 to 100 - 200.
\<close>

theorem dragging_origin_outside_interval:
  "pos_x (designPosition
      (handleMouseMove smallContainer \<lparr>clientX = 70, clientY = 70\<rparr>
        (handleMouseDown smallContainer \<lparr>clientX = 60, clientY = 60\<rparr> initialInteraction)))
   \<notin> {0 .. offsetWidth smallContainer - dim_width (designSize initialInteraction)}"
  by (simp add: handleMouseMove_def handleMouseDown_def initialInteraction_def
      smallContainer_def Let_def)

text \<open>
  Claim C6, amended: while dragging, a pointer move sets the origin on each axis to
  \<open>max 0 (min (p - offset) (containerSize - placementSize))\<close> and leaves the size alone;
  the origin is never negative, and on every axis where the placement is not larger
  than the container it lies in \<open>[0, containerSize - placementSize]\<close>, whatever the
  pointer position.
\<close>

theorem dragging_origin_clamped:
  assumes "isDragging s"
  shows "designPosition (handleMouseMove c ev s) =
           \<lparr>pos_x = max 0 (min (clientX ev - rect_left c - pos_x (dragOffset s))
                               (offsetWidth c - dim_width (designSize s))),
            pos_y = max 0 (min (clientY ev - rect_top c - pos_y (dragOffset s))
                               (offsetHeight c - dim_height (designSize s)))\<rparr>
         \<and> designSize (handleMouseMove c ev s) = designSize s
         \<and> 0 \<le> pos_x (designPosition (handleMouseMove c ev s))
         \<and> 0 \<le> pos_y (designPosition (handleMouseMove c ev s))
         \<and> (dim_width (designSize s) \<le> offsetWidth c \<longrightarrow>
              pos_x (designPosition (handleMouseMove c ev s))
                \<in> {0 .. offsetWidth c - dim_width (designSize s)})
         \<and> (dim_height (designSize s) \<le> offsetHeight c \<longrightarrow>
              pos_y (designPosition (handleMouseMove c ev s))
                \<in> {0 .. offsetHeight c - dim_height (designSize s)})"
  using assms by (simp add: handleMouseMove_def Let_def)

theorem dragging_origin_clamped_witness:
  "isDragging (handleMouseDown wideContainer \<lparr>clientX = 70, clientY = 80\<rparr> initialInteraction)
   \<and> dim_width (designSize (handleMouseDown wideContainer \<lparr>clientX = 70, clientY = 80\<rparr>
        initialInteraction)) \<le> offsetWidth wideContainer
   \<and> dim_height (designSize (handleMouseDown wideContainer \<lparr>clientX = 70, clientY = 80\<rparr>
        initialInteraction)) \<le> offsetHeight wideContainer
   \<and> designPosition (handleMouseMove wideContainer \<lparr>clientX = 5000, clientY = - 3000\<rparr>
        (handleMouseDown wideContainer \<lparr>clientX = 70, clientY = 80\<rparr> initialInteraction))
       = \<lparr>pos_x = 600, pos_y = 0\<rparr>
   \<and> pos_x (designPosition (handleMouseMove wideContainer \<lparr>clientX = 5000, clientY = - 3000\<rparr>
        (handleMouseDown wideContainer \<lparr>clientX = 70, clientY = 80\<rparr> initialInteraction)))
       \<in> {0 .. 600}"
  using dragging_origin_clamped
    [of "handleMouseDown wideContainer \<lparr>clientX = 70, clientY = 80\<rparr> initialInteraction"
        wideContainer "\<lparr>clientX = 5000, clientY = - 3000\<rparr>"]
  by (simp add: handleMouseDown_def wideContainer_def initialInteraction_def Let_def)

text \<open>
  Claim C10: in the dragging clamp the lower bound is applied last, so on an axis where
  the placement is larger than the container the new origin is exactly 0 (never
  negative), for every pointer input.
\<close>

theorem dragging_oversized_origin_zero:
  assumes "isDragging s"
  shows "(offsetWidth c < dim_width (designSize s) \<longrightarrow>
            pos_x (designPosition (handleMouseMove c ev s)) = 0)
         \<and> (offsetHeight c < dim_height (designSize s) \<longrightarrow>
            pos_y (designPosition (handleMouseMove c ev s)) = 0)"
  using assms by (simp add: handleMouseMove_def Let_def)

theorem dragging_oversized_origin_zero_witness:
  "isDragging (handleMouseDown smallContainer \<lparr>clientX = 60, clientY = 60\<rparr> initialInteraction)
   \<and> offsetWidth smallContainer
       < dim_width (designSize (handleMouseDown smallContainer \<lparr>clientX = 60, clientY = 60\<rparr>
           initialInteraction))
   \<and> offsetHeight smallContainer
       < dim_height (designSize (handleMouseDown smallContainer \<lparr>clientX = 60, clientY = 60\<rparr>
           initialInteraction))
   \<and> designPosition (handleMouseMove smallContainer \<lparr>clientX = - 900, clientY = 4000\<rparr>
        (handleMouseDown smallContainer \<lparr>clientX = 60, clientY = 60\<rparr> initialInteraction))
       = \<lparr>pos_x = 0, pos_y = 0\<rparr>"
  using dragging_oversized_origin_zero
    [of "handleMouseDown smallContainer \<lparr>clientX = 60, clientY = 60\<rparr> initialInteraction"
        smallContainer "\<lparr>clientX = - 900, clientY = 4000\<rparr>"]
  by (simp add: handleMouseDown_def handleMouseMove_def smallContainer_def
      initialInteraction_def Let_def)

text \<open>
  Claim C7, as the specification states it: resizing never yields a size below 50 by
  50, for any pointer input.

  This fails when less than 50 units remain between the origin and the container's
  edge: the bound \<open>containerSize - origin\<close> is applied last. With the origin at
  (300, 300) in a 340 by 340 container, a pointer at (500, 500) gives the width 40.
\<close>

theorem resizing_width_below_minimum:
  "dim_width (designSize
      (handleMouseMove narrowContainer \<lparr>clientX = 500, clientY = 500\<rparr> resizingNearEdge)) = 40
   \<and> \<not> 50 \<le> dim_width (designSize
      (handleMouseMove narrowContainer \<lparr>clientX = 500, clientY = 500\<rparr> resizingNearEdge))"
  by (simp add: handleMouseMove_def narrowContainer_def resizingNearEdge_def Let_def)

text \<open>
  Claim C7, amended: while resizing (and not dragging), a pointer move sets the size on
  each axis to \<open>min (max 50 (p - origin)) (containerSize - origin)\<close> and leaves the
  origin alone; the placement never extends beyond the container from its origin, and
  on every axis where at least 50 units remain between the origin and the container's
  edge the size is at least 50, whatever the pointer position.
\<close>

theorem resizing_size_clamped:
  assumes "isResizing s" and "\<not> isDragging s"
  shows "designSize (handleMouseMove c ev s) =
           \<lparr>dim_width = min (max 50 (clientX ev - rect_left c - pos_x (designPosition s)))
                             (offsetWidth c - pos_x (designPosition s)),
            dim_height = min (max 50 (clientY ev - rect_top c - pos_y (designPosition s)))
                              (offsetHeight c - pos_y (designPosition s))\<rparr>
         \<and> designPosition (handleMouseMove c ev s) = designPosition s
         \<and> pos_x (designPosition s) + dim_width (designSize (handleMouseMove c ev s))
             \<le> offsetWidth c
         \<and> pos_y (designPosition s) + dim_height (designSize (handleMouseMove c ev s))
             \<le> offsetHeight c
         \<and> (50 \<le> offsetWidth c - pos_x (designPosition s) \<longrightarrow>
              50 \<le> dim_width (designSize (handleMouseMove c ev s)))
         \<and> (50 \<le> offsetHeight c - pos_y (designPosition s) \<longrightarrow>
              50 \<le> dim_height (designSize (handleMouseMove c ev s)))"
proof -
  have size: "designSize (handleMouseMove c ev s) =
           \<lparr>dim_width = min (max 50 (clientX ev - rect_left c - pos_x (designPosition s)))
                             (offsetWidth c - pos_x (designPosition s)),
            dim_height = min (max 50 (clientY ev - rect_top c - pos_y (designPosition s)))
                              (offsetHeight c - pos_y (designPosition s))\<rparr>"
    using assms by (simp add: handleMouseMove_def Let_def)
  have origin: "designPosition (handleMouseMove c ev s) = designPosition s"
    using assms by (simp add: handleMouseMove_def Let_def)
  show ?thesis
    unfolding size origin by (simp add: min_def max_def)
qed

theorem resizing_size_clamped_witness:
  "isResizing (handleMouseDown wideContainer \<lparr>clientX = 255, clientY = 265\<rparr> initialInteraction)
   \<and> \<not> isDragging (handleMouseDown wideContainer \<lparr>clientX = 255, clientY = 265\<rparr>
         initialInteraction)
   \<and> 50 \<le> offsetWidth wideContainer - pos_x (designPosition initialInteraction)
   \<and> 50 \<le> offsetHeight wideContainer - pos_y (designPosition initialInteraction)
   \<and> designSize (handleMouseMove wideContainer \<lparr>clientX = 9000, clientY = - 40\<rparr>
        (handleMouseDown wideContainer \<lparr>clientX = 255, clientY = 265\<rparr> initialInteraction))
       = \<lparr>dim_width = 750, dim_height = 50\<rparr>"
  using resizing_size_clamped
    [of "handleMouseDown wideContainer \<lparr>clientX = 255, clientY = 265\<rparr> initialInteraction"
        wideContainer "\<lparr>clientX = 9000, clientY = - 40\<rparr>"]
  by (simp add: handleMouseDown_def wideContainer_def initialInteraction_def Let_def)

section \<open>Properties of the byte conversion\<close>

lemma uint_byte_of_int:
  "0 \<le> k \<Longrightarrow> k \<le> 255 \<Longrightarrow> uint (word_of_int k :: byte) = k"
  by (simp add: uint_word_of_int take_bit_int_eq_self)

lemma uint_toUint8Clamp:
  "uint (toUint8Clamp v) =
     (let clamped = min (max v 0) 255; f = \<lfloor>clamped\<rfloor>
      in if clamped < of_int f + 0.5 then f
         else if clamped > of_int f + 0.5 then f + 1
         else if even f then f else f + 1)"
proof -
  define c where "c = min (max v 0) 255"
  define f where "f = \<lfloor>c\<rfloor>"
  have c: "0 \<le> c" "c \<le> 255" by (simp_all add: c_def)
  have f0: "0 \<le> f" using c by (simp add: f_def)
  have f1: "f \<le> 255" using c by (simp add: f_def floor_le_iff)
  have fc: "of_int f \<le> c" by (simp add: f_def)
  have up: "f + 1 \<le> 255" if "\<not> c < of_int f + 0.5"
  proof -
    from that c have "real_of_int f < 255" by simp
    then show ?thesis by simp
  qed
  have a: "uint (word_of_int f :: byte) = f"
    using f0 f1 by (rule uint_byte_of_int)
  have b: "uint (word_of_int (f + 1) :: byte) = f + 1" if "\<not> c < of_int f + 0.5"
    using f0 up[OF that] by (intro uint_byte_of_int) simp_all
  show ?thesis
    unfolding toUint8Clamp_def Let_def c_def[symmetric] f_def[symmetric]
    using a b by (simp del: of_int_add)
qed

lemma byte_real_range: "0 \<le> real (unat (w :: byte)) \<and> real (unat w) \<le> 255"
proof -
  have "unat w < 2 ^ LENGTH(8)" by (rule unsigned_less)
  then have "unat w \<le> 255" by simp
  then have "real (unat w) \<le> real 255" by (rule of_nat_mono)
  then have b: "real (unat w) \<le> 255" by simp
  have a: "0 \<le> real (unat w)" by (rule of_nat_0_le_iff)
  from a b show ?thesis by (rule conjI)
qed

lemma toUint8Clamp_zero: "toUint8Clamp 0 = 0"
  by (simp add: toUint8Clamp_def)

lemma toUint8Clamp_half_bound:
  assumes "v \<le> 127.5"
  shows "uint (toUint8Clamp v) \<le> 128"
proof -
  define c where "c = min (max v 0) 255"
  have c: "c \<le> 127.5" using assms by (simp add: c_def)
  have "real_of_int \<lfloor>c\<rfloor> \<le> c" by simp
  with c have "real_of_int \<lfloor>c\<rfloor> < 128" by linarith
  then have "\<lfloor>c\<rfloor> \<le> 127" by simp
  then show ?thesis
    unfolding uint_toUint8Clamp Let_def c_def[symmetric] by simp
qed

lemma nth_Cons4:
  "(a # b # c # d # xs) ! (4 * Suc i + k) = xs ! (4 * i + k)"
  "(a # b # c # d # xs) ! (4 * Suc i) = xs ! (4 * i)"
  by simp_all

lemma nth_Cons4_first:
  "(a # b # c # d # xs) ! (4 * 0) = a"
  "(a # b # c # d # xs) ! (4 * 0 + 1) = b"
  "(a # b # c # d # xs) ! (4 * 0 + 2) = c"
  "(a # b # c # d # xs) ! (4 * 0 + 3) = d"
  by simp_all

section \<open>Properties of the number model\<close>

text \<open>
  Rounding to a double is monotonic and odd, and it leaves the numbers 0, 0.5, 1, 127.5
  and 255 as they are. \<open>roundBelow_unfold\<close> is the recursion in a form that evaluates on
  numerals.
\<close>

lemma roundBelow_unfold:
  "roundBelow n x =
     (if 2 ^ 52 \<le> x then of_int (roundEven x)
      else if n = 0 then of_int (roundEven x)
      else roundBelow (n - 1) (2 * x) / 2)"
  by (cases n) simp_all

lemma roundEven_floor: "\<lfloor>x\<rfloor> \<le> roundEven x \<and> roundEven x \<le> \<lfloor>x\<rfloor> + 1"
  by (simp add: roundEven_def Let_def)

lemma roundEven_of_int: "roundEven (of_int k) = k"
  by (simp add: roundEven_def Let_def)

lemma roundEven_mono:
  assumes "x \<le> y"
  shows "roundEven x \<le> roundEven y"
proof (cases "\<lfloor>x\<rfloor> = \<lfloor>y\<rfloor>")
  case True
  with assms show ?thesis
    by (auto simp add: roundEven_def Let_def)
next
  case False
  with assms have "\<lfloor>x\<rfloor> < \<lfloor>y\<rfloor>"
    using floor_mono[of x y] by simp
  with roundEven_floor[of x] roundEven_floor[of y] show ?thesis by simp
qed

lemma roundEven_le: "x \<le> of_int k \<Longrightarrow> roundEven x \<le> k"
  using roundEven_mono[of x "of_int k"] by (simp add: roundEven_of_int)

lemma roundEven_ge: "of_int k \<le> x \<Longrightarrow> k \<le> roundEven x"
  using roundEven_mono[of "of_int k" x] by (simp add: roundEven_of_int)

lemma roundBelow_large: "2 ^ 52 \<le> x \<Longrightarrow> roundBelow n x = of_int (roundEven x)"
  by (cases n) simp_all

lemma roundBelow_le52: "x \<le> 2 ^ 52 \<Longrightarrow> roundBelow n x \<le> 2 ^ 52"
proof (induction n arbitrary: x)
  case 0
  have "roundEven x \<le> 2 ^ 52" using 0 by (intro roundEven_le) simp
  then have "real_of_int (roundEven x) \<le> real_of_int (2 ^ 52)" by (rule of_int_le_iff[THEN iffD2])
  then show ?case by simp
next
  case (Suc n)
  show ?case
  proof (cases "2 ^ 52 \<le> x")
    case True
    with Suc.prems have "x = 2 ^ 52" by simp
    then have "x = of_int (2 ^ 52)" by simp
    then have "roundEven x = 2 ^ 52" by (simp only: roundEven_of_int)
    with True show ?thesis by simp
  next
    case False
    show ?thesis
    proof (cases "2 * x \<le> 2 ^ 52")
      case True
      from Suc.IH[OF this] False show ?thesis by simp
    next
      case b: False
      then have big: "(2::real) ^ 52 \<le> 2 * x" by simp
      have "roundEven (2 * x) \<le> 2 ^ 53" using False by (intro roundEven_le) simp
      then have "real_of_int (roundEven (2 * x)) \<le> real_of_int (2 ^ 53)"
        by (rule of_int_le_iff[THEN iffD2])
      with False show ?thesis by (simp add: roundBelow_large[OF big])
    qed
  qed
qed

lemma roundBelow_le53: "x \<le> 2 ^ 53 \<Longrightarrow> roundBelow n x \<le> 2 ^ 53"
proof (cases "2 ^ 52 \<le> x")
  case True
  assume "x \<le> 2 ^ 53"
  then have "roundEven x \<le> 2 ^ 53" by (intro roundEven_le) simp
  then have "real_of_int (roundEven x) \<le> real_of_int (2 ^ 53)"
    by (rule of_int_le_iff[THEN iffD2])
  then show ?thesis by (simp add: roundBelow_large[OF True])
next
  case False
  then have "x \<le> 2 ^ 52" by simp
  from roundBelow_le52[OF this, of n] show ?thesis by simp
qed

lemma roundEven_ge52: "2 ^ 52 \<le> x \<Longrightarrow> (2::real) ^ 52 \<le> of_int (roundEven x)"
proof -
  assume "2 ^ 52 \<le> x"
  then have "2 ^ 52 \<le> roundEven x" by (intro roundEven_ge) simp
  then have "real_of_int (2 ^ 52) \<le> real_of_int (roundEven x)"
    by (rule of_int_le_iff[THEN iffD2])
  then show ?thesis by simp
qed

lemma roundBelow_mono: "x \<le> y \<Longrightarrow> roundBelow n x \<le> roundBelow n y"
proof (induction n arbitrary: x y)
  case 0
  then show ?case by (simp add: roundEven_mono)
next
  case (Suc n)
  show ?case
  proof (cases "2 ^ 52 \<le> x")
    case True
    with Suc.prems have "2 ^ 52 \<le> y" by simp
    with True Suc.prems show ?thesis by (simp add: roundEven_mono)
  next
    case small: False
    show ?thesis
    proof (cases "2 ^ 52 \<le> y")
      case True
      from small have "2 * x \<le> 2 ^ 53" by simp
      from roundBelow_le53[OF this, of n] have "roundBelow n (2 * x) / 2 \<le> 2 ^ 52" by simp
      also have "\<dots> \<le> of_int (roundEven y)" using True by (rule roundEven_ge52)
      finally show ?thesis using small True by simp
    next
      case False
      from Suc.prems have "2 * x \<le> 2 * y" by simp
      from Suc.IH[OF this] small False show ?thesis by simp
    qed
  qed
qed

lemma roundBelow_nonneg: "0 \<le> x \<Longrightarrow> 0 \<le> roundBelow n x"
proof (induction n arbitrary: x)
  case 0
  then have "0 \<le> roundEven x" by (intro roundEven_ge) simp
  then show ?case by simp
next
  case (Suc n)
  from Suc.prems have "0 \<le> roundEven x" by (intro roundEven_ge) simp
  moreover from Suc.prems have "0 \<le> roundBelow n (2 * x)" by (intro Suc.IH) simp
  ultimately show ?case by simp
qed

lemma roundAbove_ge52: "2 ^ 52 \<le> x \<Longrightarrow> 2 ^ 52 \<le> roundAbove n x"
proof (induction n arbitrary: x)
  case 0
  from roundEven_ge52[OF "0.prems"] show ?case by simp
next
  case (Suc n)
  show ?case
  proof (cases "x < 2 ^ 53")
    case True
    from roundEven_ge52[OF Suc.prems] True show ?thesis by simp
  next
    case False
    then have "2 ^ 52 \<le> x / 2" by simp
    from Suc.IH[OF this] False show ?thesis by simp
  qed
qed

lemma roundAbove_ge53:
  assumes "2 ^ 53 \<le> x" and "0 < n"
  shows "2 ^ 53 \<le> roundAbove n x"
proof -
  from assms(2) obtain m where n: "n = Suc m" by (cases n) simp_all
  from assms(1) have "2 ^ 52 \<le> x / 2" by simp
  from roundAbove_ge52[OF this, of m] assms(1) show ?thesis by (simp add: n)
qed

lemma roundAbove_mono: "x \<le> y \<Longrightarrow> roundAbove n x \<le> roundAbove n y"
proof (induction n arbitrary: x y)
  case 0
  then show ?case by (simp add: roundEven_mono)
next
  case (Suc n)
  show ?case
  proof (cases "y < 2 ^ 53")
    case True
    with Suc.prems show ?thesis by (simp add: roundEven_mono)
  next
    case big: False
    show ?thesis
    proof (cases "x < 2 ^ 53")
      case True
      then have "roundEven x \<le> 2 ^ 53" by (intro roundEven_le) simp
      then have "real_of_int (roundEven x) \<le> real_of_int (2 ^ 53)"
        by (rule of_int_le_iff[THEN iffD2])
      moreover from big have "2 ^ 52 \<le> y / 2" by simp
      from roundAbove_ge52[OF this, of n] have "2 ^ 53 \<le> 2 * roundAbove n (y / 2)" by simp
      ultimately show ?thesis using True big by simp
    next
      case False
      from Suc.prems have "x / 2 \<le> y / 2" by simp
      from Suc.IH[OF this] False big show ?thesis by simp
    qed
  qed
qed

lemma roundMagnitude_mono: "x \<le> y \<Longrightarrow> roundMagnitude x \<le> roundMagnitude y"
proof -
  assume le: "x \<le> y"
  show ?thesis
  proof (cases "y < 2 ^ 53")
    case True
    with le show ?thesis by (simp add: roundMagnitude_def roundBelow_mono)
  next
    case big: False
    show ?thesis
    proof (cases "x < 2 ^ 53")
      case True
      then have "roundBelow 1074 x \<le> 2 ^ 53" by (intro roundBelow_le53) simp
      moreover have "2 ^ 53 \<le> roundAbove 971 y" using big by (intro roundAbove_ge53) simp_all
      ultimately show ?thesis using True big by (simp add: roundMagnitude_def)
    next
      case False
      with le big show ?thesis by (simp add: roundMagnitude_def roundAbove_mono)
    qed
  qed
qed

lemma roundMagnitude_zero: "roundMagnitude 0 = 0"
  by (simp add: roundMagnitude_def roundBelow_unfold roundEven_def)

lemma toDouble_mono: "x \<le> y \<Longrightarrow> toDouble x \<le> toDouble y"
proof -
  assume le: "x \<le> y"
  have nonneg: "0 \<le> roundMagnitude a" if "0 \<le> a" for a
    using roundMagnitude_mono[OF that] by (simp add: roundMagnitude_zero)
  show ?thesis
  proof (cases "y < 0")
    case True
    with le have "roundMagnitude (- y) \<le> roundMagnitude (- x)" by (intro roundMagnitude_mono) simp
    with True le show ?thesis by (simp add: toDouble_def)
  next
    case False
    show ?thesis
    proof (cases "x < 0")
      case True
      then have "0 \<le> roundMagnitude (- x)" by (intro nonneg) simp
      moreover from False have "0 \<le> roundMagnitude y" by (intro nonneg) simp
      ultimately show ?thesis using True False by (simp add: toDouble_def)
    next
      case xpos: False
      with False le show ?thesis by (simp add: toDouble_def roundMagnitude_mono)
    qed
  qed
qed

lemma toDouble_minus: "toDouble (- x) = - toDouble x"
  by (simp add: toDouble_def roundMagnitude_zero)

lemma toDouble_exact:
  "toDouble 0 = 0" "toDouble (1 / 2) = 1 / 2" "toDouble 1 = 1"
  "toDouble (255 / 2) = 255 / 2" "toDouble 255 = 255"
  by (simp_all add: toDouble_def roundMagnitude_def roundBelow_unfold roundEven_def)

section \<open>Properties of the lighting masks\<close>

lemma toDouble_nonneg: "0 \<le> x \<Longrightarrow> 0 \<le> toDouble x"
  using toDouble_mono[of 0 x] by (simp add: toDouble_exact)

lemma toDouble_nonpos: "x \<le> 0 \<Longrightarrow> toDouble x \<le> 0"
  using toDouble_mono[of x 0] by (simp add: toDouble_exact)

lemma toDouble_literals:
  "toDouble (299 / 1000) = 5386305154335113 / 18014398509481984"
  "toDouble (587 / 1000) = 2643612981266481 / 4503599627370496"
  "toDouble (114 / 1000) = 8214565720323785 / 72057594037927936"
  by (simp_all add: toDouble_def roundMagnitude_def roundBelow_unfold roundEven_def)

text \<open>The brightness grows with each colour channel, and white has brightness 1.\<close>

lemma brightness_mono:
  assumes "unat r \<le> unat r'" "unat g \<le> unat g'" "unat b \<le> unat b'"
  shows "brightness r g b \<le> brightness r' g' b'"
proof -
  have m: "numMul (toDouble c) (real x) \<le> numMul (toDouble c) (real y)"
    if "0 \<le> c" "x \<le> y" for c and x y :: nat
    unfolding numMul_def
    by (intro toDouble_mono mult_left_mono toDouble_nonneg) (use that in simp_all)
  define s where
    "s = numAdd (numMul (toDouble 0.299) (real (unat r))) (numMul (toDouble 0.587) (real (unat g)))"
  define s' where
    "s' = numAdd (numMul (toDouble 0.299) (real (unat r'))) (numMul (toDouble 0.587) (real (unat g')))"
  have a: "s \<le> s'"
    unfolding s_def s'_def numAdd_def by (intro toDouble_mono add_mono m assms) simp_all
  have b: "numAdd s (numMul (toDouble 0.114) (real (unat b)))
             \<le> numAdd s' (numMul (toDouble 0.114) (real (unat b')))"
    unfolding numAdd_def by (intro toDouble_mono add_mono a m assms) simp
  show ?thesis
    unfolding brightness_def s_def[symmetric] s'_def[symmetric] numDiv_def
    by (intro toDouble_mono divide_right_mono b) simp
qed

lemma brightness_example:
  "brightness 0 0 0 = 0"
  "brightness 255 255 255 = 1"
  "brightness 10 200 30 = 8746520311603781 / 18014398509481984"
  "brightness 127 127 127 = 8971876904722399 / 18014398509481984"
  "brightness 0 74 233 = 2472564501301449 / 9007199254740992"
  by (simp_all add: brightness_def numAdd_def numMul_def numDiv_def toDouble_literals)
    (simp_all add: toDouble_def roundMagnitude_def roundBelow_unfold roundEven_def)

lemma brightness_range: "0 \<le> brightness r g b \<and> brightness r g b \<le> 1"
proof -
  have "unat w \<le> unat (255 :: byte)" for w :: byte
  proof -
    have "unat w < 2 ^ LENGTH(8)" by (rule unsigned_less)
    then show ?thesis by simp
  qed
  then have "brightness r g b \<le> brightness 255 255 255" by (intro brightness_mono)
  then have up: "brightness r g b \<le> 1" by (simp add: brightness_example)
  have "brightness 0 0 0 \<le> brightness r g b" by (intro brightness_mono) simp_all
  then have "0 \<le> brightness r g b" by (simp add: brightness_example)
  with up show ?thesis by simp
qed

lemma shadowValue_le: "0 \<le> L \<Longrightarrow> shadowValue L \<le> 127.5"
proof -
  assume "0 \<le> L"
  then have "toDouble (1 / 2 - L) \<le> toDouble (1 / 2)" by (intro toDouble_mono) simp
  then have "max 0 (min 1 (numSub 0.5 L)) \<le> 1 / 2"
    by (simp add: numSub_def toDouble_exact)
  then have "toDouble (max 0 (min 1 (numSub 0.5 L)) * 255) \<le> toDouble (255 / 2)"
    by (intro toDouble_mono) simp
  then show ?thesis by (simp add: shadowValue_def numMul_def toDouble_exact)
qed

lemma highlightValue_le: "L \<le> 1 \<Longrightarrow> highlightValue L \<le> 127.5"
proof -
  assume "L \<le> 1"
  then have "toDouble (L - 1 / 2) \<le> toDouble (1 / 2)" by (intro toDouble_mono) simp
  then have "max 0 (min 1 (numSub L 0.5)) \<le> 1 / 2"
    by (simp add: numSub_def toDouble_exact)
  then have "toDouble (max 0 (min 1 (numSub L 0.5)) * 255) \<le> toDouble (255 / 2)"
    by (intro toDouble_mono) simp
  then show ?thesis by (simp add: highlightValue_def numMul_def toDouble_exact)
qed

lemma shadowValue_bright: "0.5 \<le> L \<Longrightarrow> shadowValue L = 0"
proof -
  assume "0.5 \<le> L"
  then have "toDouble (1 / 2 - L) \<le> 0" by (intro toDouble_nonpos) simp
  then show ?thesis by (simp add: shadowValue_def numSub_def numMul_def toDouble_exact)
qed

lemma highlightValue_dark: "L \<le> 0.5 \<Longrightarrow> highlightValue L = 0"
proof -
  assume "L \<le> 0.5"
  then have "toDouble (L - 1 / 2) \<le> 0" by (intro toDouble_nonpos) simp
  then show ?thesis by (simp add: highlightValue_def numSub_def numMul_def toDouble_exact)
qed

lemma masks_exclusive:
  "toUint8Clamp (shadowValue L) = 0 \<or> toUint8Clamp (highlightValue L) = 0"
proof (cases "L \<le> 0.5")
  case True
  then have "highlightValue L = 0" by (rule highlightValue_dark)
  then show ?thesis by (simp add: toUint8Clamp_zero)
next
  case False
  then have "shadowValue L = 0" by (intro shadowValue_bright) simp
  then show ?thesis by (simp add: toUint8Clamp_zero)
qed

lemma maskLoop_step:
  "fst (maskLoop (r # g # b # a # rest)) =
     toUint8Clamp (shadowValue (brightness r g b)) # toUint8Clamp (shadowValue (brightness r g b))
       # toUint8Clamp (shadowValue (brightness r g b)) # a # fst (maskLoop rest)"
  "snd (maskLoop (r # g # b # a # rest)) =
     toUint8Clamp (highlightValue (brightness r g b)) # toUint8Clamp (highlightValue (brightness r g b))
       # toUint8Clamp (highlightValue (brightness r g b)) # a # snd (maskLoop rest)"
  by (simp_all add: Let_def case_prod_beta)

lemma maskLoop_length:
  "length (fst (maskLoop data)) = length data \<and> length (snd (maskLoop data)) = length data"
proof (induction data rule: maskLoop.induct)
  case (1 r g b a rest)
  from "1.IH"[OF refl refl refl] show ?case
    unfolding maskLoop_step by simp
qed (simp_all add: Let_def)

lemma maskLoop_pixel:
  assumes "4 * i + 3 < length data"
  shows "fst (maskLoop data) ! (4 * i) =
           toUint8Clamp (shadowValue (brightness (data ! (4 * i)) (data ! (4 * i + 1)) (data ! (4 * i + 2))))
       \<and> fst (maskLoop data) ! (4 * i + 1) = fst (maskLoop data) ! (4 * i)
       \<and> fst (maskLoop data) ! (4 * i + 2) = fst (maskLoop data) ! (4 * i)
       \<and> fst (maskLoop data) ! (4 * i + 3) = data ! (4 * i + 3)
       \<and> snd (maskLoop data) ! (4 * i) =
           toUint8Clamp (highlightValue (brightness (data ! (4 * i)) (data ! (4 * i + 1)) (data ! (4 * i + 2))))
       \<and> snd (maskLoop data) ! (4 * i + 1) = snd (maskLoop data) ! (4 * i)
       \<and> snd (maskLoop data) ! (4 * i + 2) = snd (maskLoop data) ! (4 * i)
       \<and> snd (maskLoop data) ! (4 * i + 3) = data ! (4 * i + 3)"
  using assms
proof (induction data arbitrary: i rule: maskLoop.induct)
  case (1 r g b a rest)
  show ?case
  proof (cases i)
    case 0
    show ?thesis
      unfolding 0 maskLoop_step nth_Cons4_first by simp
  next
    case (Suc j)
    from "1.prems" Suc have "4 * j + 3 < length rest" by simp
    from "1.IH"[OF refl refl refl this] show ?thesis
      unfolding Suc maskLoop_step nth_Cons4 .
  qed
qed simp_all

lemma buildLightingMasksSimple_data:
  "bm_data (shadowMask (buildLightingMasksSimple m)) = fst (maskLoop (bm_data m))"
  "bm_data (highlightMask (buildLightingMasksSimple m)) = snd (maskLoop (bm_data m))"
  by (simp_all add: buildLightingMasksSimple_def Let_def case_prod_beta)

lemma buildLightingMasksSimple_example:
  "buildLightingMasksSimple mockupExample =
     \<lparr>shadowMask = \<lparr>bm_width = 5, bm_height = 1,
         bm_data = [128, 128, 128, 255,  0, 0, 0, 7,  4, 4, 4, 0,  1, 1, 1, 255,
                    57, 57, 57, 255]\<rparr>,
      highlightMask = \<lparr>bm_width = 5, bm_height = 1,
         bm_data = [0, 0, 0, 255,  128, 128, 128, 7,  0, 0, 0, 0,  0, 0, 0, 255,
                    0, 0, 0, 255]\<rparr>\<rparr>"
  by (simp add: buildLightingMasksSimple_def mockupExample_def Let_def brightness_example
      shadowValue_def highlightValue_def numSub_def numMul_def)
    (simp add: toDouble_def roundMagnitude_def roundBelow_unfold roundEven_def toUint8Clamp_def)

text \<open>
  Claim C3: for every pixel of the base photo the extractor computes the luminance
  \<open>L = (0.299 r + 0.587 g + 0.114 b) / 255\<close> of the pixel's colour bytes, in double
  arithmetic; it lies in \<open>[0, 1]\<close>. The shadow mask receives \<open>clamp (0.5 - L) 0 1 * 255\<close>
  and the highlight mask \<open>clamp (L - 0.5) 0 1 * 255\<close>, each converted to a byte, the same
  value in the red, green and blue channels, with the pixel's alpha; the shadow and the
  highlight value of a pixel are never both positive. The masks have the photo's
  dimensions.
\<close>

theorem lighting_masks_pixelwise:
  assumes "4 * i + 3 < length (bm_data mockup)"
  shows "let d = bm_data mockup;
             r = real (unat (d ! (4 * i)));
             g = real (unat (d ! (4 * i + 1)));
             b = real (unat (d ! (4 * i + 2)));
             L = numDiv (numAdd (numAdd (numMul (toDouble 0.299) r) (numMul (toDouble 0.587) g))
                                (numMul (toDouble 0.114) b))
                        255;
             S = bm_data (shadowMask (buildLightingMasksSimple mockup));
             H = bm_data (highlightMask (buildLightingMasksSimple mockup))
         in 0 \<le> L \<and> L \<le> 1
            \<and> S ! (4 * i) = toUint8Clamp (numMul (max 0 (min 1 (numSub 0.5 L))) 255)
            \<and> S ! (4 * i + 1) = S ! (4 * i) \<and> S ! (4 * i + 2) = S ! (4 * i)
            \<and> S ! (4 * i + 3) = d ! (4 * i + 3)
            \<and> H ! (4 * i) = toUint8Clamp (numMul (max 0 (min 1 (numSub L 0.5))) 255)
            \<and> H ! (4 * i + 1) = H ! (4 * i) \<and> H ! (4 * i + 2) = H ! (4 * i)
            \<and> H ! (4 * i + 3) = d ! (4 * i + 3)
            \<and> \<not> (0 < S ! (4 * i) \<and> 0 < H ! (4 * i))
            \<and> length S = length d \<and> length H = length d
            \<and> bm_width (shadowMask (buildLightingMasksSimple mockup)) = bm_width mockup
            \<and> bm_height (shadowMask (buildLightingMasksSimple mockup)) = bm_height mockup
            \<and> bm_width (highlightMask (buildLightingMasksSimple mockup)) = bm_width mockup
            \<and> bm_height (highlightMask (buildLightingMasksSimple mockup)) = bm_height mockup"
proof -
  define d where "d = bm_data mockup"
  define L where "L = brightness (d ! (4 * i)) (d ! (4 * i + 1)) (d ! (4 * i + 2))"
  have px: "4 * i + 3 < length d" using assms by (simp add: d_def)
  note p = maskLoop_pixel[OF px, folded L_def]
  have excl: "\<not> (0 < toUint8Clamp (shadowValue L) \<and> 0 < toUint8Clamp (highlightValue L))"
    using masks_exclusive[of L] by auto
  have dims: "bm_width (shadowMask (buildLightingMasksSimple mockup)) = bm_width mockup"
    "bm_height (shadowMask (buildLightingMasksSimple mockup)) = bm_height mockup"
    "bm_width (highlightMask (buildLightingMasksSimple mockup)) = bm_width mockup"
    "bm_height (highlightMask (buildLightingMasksSimple mockup)) = bm_height mockup"
    by (simp_all add: buildLightingMasksSimple_def Let_def case_prod_beta)
  note rng = brightness_range[of "d ! (4 * i)" "d ! (4 * i + 1)" "d ! (4 * i + 2)", folded L_def]
  show ?thesis
    unfolding Let_def buildLightingMasksSimple_data d_def[symmetric] dims
      brightness_def[symmetric] L_def[symmetric]
      shadowValue_def[symmetric] highlightValue_def[symmetric]
    using p excl rng maskLoop_length[of d] by simp
qed

theorem lighting_masks_pixelwise_witness:
  "4 * 3 + 3 < length (bm_data mockupExample)
   \<and> brightness 127 127 127 = 8971876904722399 / 18014398509481984
   \<and> brightness 0 74 233 = 2472564501301449 / 9007199254740992
   \<and> brightness 10 200 30 = 8746520311603781 / 18014398509481984
   \<and> bm_data (shadowMask (buildLightingMasksSimple mockupExample)) =
       [128, 128, 128, 255,  0, 0, 0, 7,  4, 4, 4, 0,  1, 1, 1, 255,  57, 57, 57, 255]
   \<and> bm_data (highlightMask (buildLightingMasksSimple mockupExample)) =
       [0, 0, 0, 255,  128, 128, 128, 7,  0, 0, 0, 0,  0, 0, 0, 255,  0, 0, 0, 255]"
  using lighting_masks_pixelwise[of 3 mockupExample]
  by (simp add: buildLightingMasksSimple_example brightness_example) (simp add: mockupExample_def)

text \<open>
  Claim C9, as stated, gives every mask value as \<open>clamp \<bar>brightness - 0.5\<bar> 0 1 * 255\<close>. For
  the black pixel of the example that number is 127.5, stored as 128, and the shadow
  mask holds it; the highlight mask holds 0.
\<close>

theorem highlight_of_black_is_zero:
  "bm_data mockupExample ! 0 = 0 \<and> bm_data mockupExample ! 1 = 0 \<and> bm_data mockupExample ! 2 = 0
   \<and> toUint8Clamp (numMul (max 0 (min 1 \<bar>numSub (brightness 0 0 0) 0.5\<bar>)) 255) = 128
   \<and> bm_data (shadowMask (buildLightingMasksSimple mockupExample)) ! 0 = 128
   \<and> bm_data (highlightMask (buildLightingMasksSimple mockupExample)) ! 0 = 0"
  by (simp add: buildLightingMasksSimple_example brightness_example numSub_def numMul_def
      toDouble_minus toDouble_exact)
    (simp add: mockupExample_def toUint8Clamp_def)

text \<open>
  Claim C9, amended: let \<open>V = clamp \<bar>brightness - 0.5\<bar> 0 1 * 255\<close>, in double arithmetic.
  Then \<open>\<bar>brightness - 0.5\<bar> \<le> 0.5\<close> and \<open>V \<le> 127.5\<close>; the shadow mask holds the byte for \<open>V\<close>
  where the brightness is at most 0.5 and 0 elsewhere, the highlight mask holds the byte
  for \<open>V\<close> where the brightness is at least 0.5 and 0 elsewhere. So every colour value of
  either mask is at most 128. The alpha byte of each mask pixel is the alpha byte of the
  source pixel.
\<close>

theorem lighting_masks_half_intensity:
  assumes "4 * i + 3 < length (bm_data mockup)"
  shows "let d = bm_data mockup;
             L = brightness (d ! (4 * i)) (d ! (4 * i + 1)) (d ! (4 * i + 2));
             V = numMul (max 0 (min 1 \<bar>numSub L 0.5\<bar>)) 255;
             S = bm_data (shadowMask (buildLightingMasksSimple mockup));
             H = bm_data (highlightMask (buildLightingMasksSimple mockup))
         in \<bar>numSub L 0.5\<bar> \<le> 0.5 \<and> V \<le> 127.5
            \<and> S ! (4 * i) = (if L \<le> 0.5 then toUint8Clamp V else 0)
            \<and> H ! (4 * i) = (if 0.5 \<le> L then toUint8Clamp V else 0)
            \<and> unat (S ! (4 * i)) \<le> 128 \<and> unat (S ! (4 * i + 1)) \<le> 128
            \<and> unat (S ! (4 * i + 2)) \<le> 128
            \<and> unat (H ! (4 * i)) \<le> 128 \<and> unat (H ! (4 * i + 1)) \<le> 128
            \<and> unat (H ! (4 * i + 2)) \<le> 128
            \<and> S ! (4 * i + 3) = d ! (4 * i + 3)
            \<and> H ! (4 * i + 3) = d ! (4 * i + 3)"
proof -
  define d where "d = bm_data mockup"
  define L where "L = brightness (d ! (4 * i)) (d ! (4 * i + 1)) (d ! (4 * i + 2))"
  define V where "V = numMul (max 0 (min 1 \<bar>numSub L 0.5\<bar>)) 255"
  have px: "4 * i + 3 < length d" using assms by (simp add: d_def)
  note p = maskLoop_pixel[OF px, folded L_def]
  have L: "0 \<le> L" "L \<le> 1"
    using brightness_range[of "d ! (4 * i)" "d ! (4 * i + 1)" "d ! (4 * i + 2)"]
    by (simp_all add: L_def)
  have s: "unat (toUint8Clamp (shadowValue L)) \<le> 128"
    using nat_mono[OF toUint8Clamp_half_bound[OF shadowValue_le[OF L(1)]]] by simp
  have h: "unat (toUint8Clamp (highlightValue L)) \<le> 128"
    using nat_mono[OF toUint8Clamp_half_bound[OF highlightValue_le[OF L(2)]]] by simp
  have flip: "numSub (1 / 2) L = - numSub L (1 / 2)"
    using toDouble_minus[of "L - 1 / 2"] by (simp add: numSub_def)
  have up: "numSub L (1 / 2) \<le> 1 / 2"
  proof -
    from L(2) have "toDouble (L - 1 / 2) \<le> toDouble (1 / 2)" by (intro toDouble_mono) simp
    then show ?thesis by (simp add: numSub_def toDouble_exact)
  qed
  have low: "- (1 / 2) \<le> numSub L (1 / 2)"
  proof -
    from L(1) have "toDouble (- (1 / 2)) \<le> toDouble (L - 1 / 2)" by (intro toDouble_mono) simp
    then show ?thesis by (simp add: numSub_def toDouble_minus toDouble_exact)
  qed
  have a: "\<bar>numSub L (1 / 2)\<bar> \<le> 1 / 2" using up low by (simp add: abs_if)
  have v: "V \<le> 255 / 2"
  proof -
    from a have "toDouble (max 0 (min 1 \<bar>numSub L (1 / 2)\<bar>) * 255) \<le> toDouble (255 / 2)"
      by (intro toDouble_mono) simp
    then show ?thesis by (simp add: V_def numMul_def toDouble_exact)
  qed
  have sv: "toUint8Clamp (shadowValue L) = (if L \<le> 1 / 2 then toUint8Clamp V else 0)"
  proof (cases "L \<le> 1 / 2")
    case True
    then have "toDouble (L - 1 / 2) \<le> 0" by (intro toDouble_nonpos) simp
    then have "\<bar>numSub L (1 / 2)\<bar> = numSub (1 / 2) L" by (simp add: flip) (simp add: numSub_def)
    with True show ?thesis by (simp add: V_def shadowValue_def)
  next
    case False
    then have "shadowValue L = 0" by (intro shadowValue_bright) simp
    with False show ?thesis by (simp add: toUint8Clamp_zero)
  qed
  have hv: "toUint8Clamp (highlightValue L) = (if 1 / 2 \<le> L then toUint8Clamp V else 0)"
  proof (cases "1 / 2 \<le> L")
    case True
    then have "0 \<le> toDouble (L - 1 / 2)" by (intro toDouble_nonneg) simp
    then have "\<bar>numSub L (1 / 2)\<bar> = numSub L (1 / 2)" by (simp add: numSub_def)
    with True show ?thesis by (simp add: V_def highlightValue_def)
  next
    case False
    then have "highlightValue L = 0" by (intro highlightValue_dark) simp
    with False show ?thesis by (simp add: toUint8Clamp_zero)
  qed
  show ?thesis
    unfolding Let_def buildLightingMasksSimple_data d_def[symmetric] L_def[symmetric]
    using p s h a v sv hv by (simp add: V_def)
qed

theorem lighting_masks_half_intensity_witness:
  "4 * 0 + 3 < length (bm_data mockupExample)
   \<and> brightness 0 0 0 \<le> 0.5
   \<and> toUint8Clamp (numMul (max 0 (min 1 \<bar>numSub (brightness 0 0 0) 0.5\<bar>)) 255) = 128
   \<and> unat (bm_data (shadowMask (buildLightingMasksSimple mockupExample)) ! (4 * 0)) = 128
   \<and> unat (bm_data (highlightMask (buildLightingMasksSimple mockupExample)) ! (4 * 0)) = 0
   \<and> bm_data (shadowMask (buildLightingMasksSimple mockupExample)) ! (4 * 0 + 3) = 255
   \<and> unat (bm_data (highlightMask (buildLightingMasksSimple mockupExample)) ! 4) = 128
   \<and> bm_data (highlightMask (buildLightingMasksSimple mockupExample)) ! 7 = 7
   \<and> unat (bm_data (shadowMask (buildLightingMasksSimple mockupExample)) ! 16) = 57"
  using lighting_masks_half_intensity[of 0 mockupExample]
  by (simp add: buildLightingMasksSimple_example brightness_example numSub_def numMul_def
      toDouble_minus toDouble_exact)
    (simp add: mockupExample_def toUint8Clamp_def)

section \<open>Properties of the depth map normalisation\<close>

lemma pixel_index_zero: "4 * i < n \<Longrightarrow> n \<le> 4 \<Longrightarrow> i = (0::nat)"
  by arith

lemma minMaxLoop_step:
  "minMaxLoop (r # g # b # a # rest) acc =
     minMaxLoop rest (min (fst acc) (unat r), max (snd acc) (unat r))"
  by (cases acc) (simp add: Let_def)

lemma minMaxLoop_acc:
  "fst (minMaxLoop d acc) \<le> fst acc \<and> snd acc \<le> snd (minMaxLoop d acc)"
proof (induction d acc rule: minMaxLoop.induct)
  case (1 r g b a rest mn mx)
  from "1.IH"[OF refl] show ?case
    unfolding minMaxLoop_step by simp
qed (simp_all add: Let_def)

lemma minMaxLoop_pixel:
  assumes "4 * i < length d"
  shows "fst (minMaxLoop d acc) \<le> unat (d ! (4 * i))
       \<and> unat (d ! (4 * i)) \<le> snd (minMaxLoop d acc)"
  using assms
proof (induction d acc arbitrary: i rule: minMaxLoop.induct)
  case (1 r g b a rest mn mx)
  show ?case
  proof (cases i)
    case 0
    from minMaxLoop_acc[of rest "(min mn (unat r), max mx (unat r))"]
    show ?thesis unfolding 0 minMaxLoop_step by simp
  next
    case (Suc j)
    from "1.prems" Suc have "4 * j < length rest" by simp
    from "1.IH"[OF refl this] show ?thesis
      unfolding Suc minMaxLoop_step nth_Cons4 by simp
  qed
qed (auto simp add: Let_def dest!: pixel_index_zero)

lemma minMaxLoop_min_attained:
  "fst (minMaxLoop d acc) = fst acc
   \<or> (\<exists>i. 4 * i < length d \<and> unat (d ! (4 * i)) = fst (minMaxLoop d acc))"
proof (induction d acc rule: minMaxLoop.induct)
  case (1 r g b a rest mn mx)
  let ?acc = "(min mn (unat r), max mx (unat r))"
  from "1.IH"[OF refl]
  consider "fst (minMaxLoop rest ?acc) = min mn (unat r)"
    | j where "4 * j < length rest" "unat (rest ! (4 * j)) = fst (minMaxLoop rest ?acc)"
    by auto
  then show ?case
  proof cases
    case 1
    show ?thesis
    proof (cases "mn \<le> unat r")
      case True
      with 1 show ?thesis unfolding minMaxLoop_step by simp
    next
      case False
      with 1 have "unat ((r # g # b # a # rest) ! (4 * 0)) = fst (minMaxLoop rest ?acc)"
        by simp
      then show ?thesis unfolding minMaxLoop_step
        by (intro disjI2 exI[of _ 0]) simp
    qed
  next
    case 2
    have "unat ((r # g # b # a # rest) ! (4 * Suc j)) = fst (minMaxLoop rest ?acc)"
      unfolding nth_Cons4 by (rule 2)
    with 2(1) show ?thesis unfolding minMaxLoop_step
      by (intro disjI2 exI[of _ "Suc j"]) simp
  qed
qed (auto simp add: Let_def min_def intro: exI[of _ 0])

lemma minMaxLoop_max_attained:
  "snd (minMaxLoop d acc) = snd acc
   \<or> (\<exists>i. 4 * i < length d \<and> unat (d ! (4 * i)) = snd (minMaxLoop d acc))"
proof (induction d acc rule: minMaxLoop.induct)
  case (1 r g b a rest mn mx)
  let ?acc = "(min mn (unat r), max mx (unat r))"
  from "1.IH"[OF refl]
  consider "snd (minMaxLoop rest ?acc) = max mx (unat r)"
    | j where "4 * j < length rest" "unat (rest ! (4 * j)) = snd (minMaxLoop rest ?acc)"
    by auto
  then show ?case
  proof cases
    case 1
    show ?thesis
    proof (cases "unat r \<le> mx")
      case True
      with 1 show ?thesis unfolding minMaxLoop_step by simp
    next
      case False
      with 1 have "unat ((r # g # b # a # rest) ! (4 * 0)) = snd (minMaxLoop rest ?acc)"
        by simp
      then show ?thesis unfolding minMaxLoop_step
        by (intro disjI2 exI[of _ 0]) simp
    qed
  next
    case 2
    have "unat ((r # g # b # a # rest) ! (4 * Suc j)) = snd (minMaxLoop rest ?acc)"
      unfolding nth_Cons4 by (rule 2)
    with 2(1) show ?thesis unfolding minMaxLoop_step
      by (intro disjI2 exI[of _ "Suc j"]) simp
  qed
qed (auto simp add: Let_def max_def intro: exI[of _ 0])

lemma normalizeLoop_length: "length (normalizeLoop mn rg d) = length d"
  by (induction mn rg d rule: normalizeLoop.induct) (simp_all add: Let_def)

lemma normalizeLoop_step:
  "normalizeLoop mn rg (r # g # b # a # rest) =
     toUint8Clamp (normalized mn rg r) # toUint8Clamp (normalized mn rg r)
       # toUint8Clamp (normalized mn rg r) # a # normalizeLoop mn rg rest"
  by (simp add: Let_def)

lemma normalizeLoop_red:
  assumes "4 * i < length d"
  shows "normalizeLoop mn rg d ! (4 * i) = toUint8Clamp (normalized mn rg (d ! (4 * i)))"
  using assms
proof (induction mn rg d arbitrary: i rule: normalizeLoop.induct)
  case (1 mn rg r g b a rest)
  show ?case
  proof (cases i)
    case 0
    show ?thesis unfolding 0 normalizeLoop_step nth_Cons4_first ..
  next
    case (Suc j)
    from "1.prems" Suc have "4 * j < length rest" by simp
    from "1.IH"[OF refl this] show ?thesis
      unfolding Suc normalizeLoop_step nth_Cons4 .
  qed
qed (auto simp add: Let_def dest!: pixel_index_zero)

lemma normalizeLoop_pixel:
  assumes "4 * i + 3 < length d"
  shows "normalizeLoop mn rg d ! (4 * i + 1) = normalizeLoop mn rg d ! (4 * i)
       \<and> normalizeLoop mn rg d ! (4 * i + 2) = normalizeLoop mn rg d ! (4 * i)
       \<and> normalizeLoop mn rg d ! (4 * i + 3) = d ! (4 * i + 3)"
  using assms
proof (induction mn rg d arbitrary: i rule: normalizeLoop.induct)
  case (1 mn rg r g b a rest)
  show ?case
  proof (cases i)
    case 0
    show ?thesis unfolding 0 normalizeLoop_step nth_Cons4_first by simp
  next
    case (Suc j)
    from "1.prems" Suc have "4 * j + 3 < length rest" by simp
    from "1.IH"[OF refl this] show ?thesis
      unfolding Suc normalizeLoop_step nth_Cons4 .
  qed
qed simp_all

lemma toUint8Clamp_255: "toUint8Clamp 255 = 255"
  by (simp add: toUint8Clamp_def)

lemma normalizeImageData_eq:
  "normalizeImageData data =
     (if fst (minMaxLoop data (255, 0)) < snd (minMaxLoop data (255, 0))
      then normalizeLoop (fst (minMaxLoop data (255, 0)))
             (int (snd (minMaxLoop data (255, 0))) - int (fst (minMaxLoop data (255, 0)))) data
      else data)"
  by (simp add: normalizeImageData_def case_prod_beta Let_def)

lemma unat_byte_less: "unat (w :: byte) < 256"
  using unsigned_less[of w, where 'a = nat] by simp

lemma minMaxLoop_span:
  assumes "fst (minMaxLoop data (255, 0)) < snd (minMaxLoop data (255, 0))"
  shows "(\<exists>i. 4 * i < length data \<and> unat (data ! (4 * i)) = fst (minMaxLoop data (255, 0)))
       \<and> (\<exists>i. 4 * i < length data \<and> unat (data ! (4 * i)) = snd (minMaxLoop data (255, 0)))"
proof -
  let ?mn = "fst (minMaxLoop data (255, 0))" and ?mx = "snd (minMaxLoop data (255, 0))"
  have mx_attained: "\<exists>i. 4 * i < length data \<and> unat (data ! (4 * i)) = ?mx"
    using minMaxLoop_max_attained[of data "(255, 0)"] assms by auto
  then obtain j where j: "4 * j < length data" "unat (data ! (4 * j)) = ?mx" by blast
  have "?mx < 256" using unat_byte_less[of "data ! (4 * j)"] j by simp
  with assms have "?mn \<noteq> 255" by simp
  then have "\<exists>i. 4 * i < length data \<and> unat (data ! (4 * i)) = ?mn"
    using minMaxLoop_min_attained[of data "(255, 0)"] by auto
  with mx_attained show ?thesis by blast
qed

text \<open>
  Claim C2, amended: \<^verbatim>\<open>processDepthMap\<close> draws its input onto a 1024 by 1024 canvas,
  blurs it, and returns a 1024 by 1024 bitmap holding the normalised pixels of that
  canvas. Normalisation takes the minimum \<open>mn\<close> and maximum \<open>mx\<close> of the red channel, which
  the code uses as the grey level. When the red channel is not uniform, \<open>mn < mx\<close> and
  the red, green and blue bytes of every pixel become the byte for
  \<open>(red - mn) / (mx - mn) * 255\<close>, alpha being kept: a pixel at the minimum gets 0, a pixel
  at the maximum gets 255, and both values occur, so the output spans the full range.
  When the red channel is uniform, rescaling is skipped and the pixels of the resampled,
  blurred canvas are returned unchanged. The second part of the statement holds for any
  pixel data, so in particular for the pixels of the blurred canvas.
\<close>

theorem processDepthMap_normalizes:
  "processDepthMap ctx depthBitmap =
     \<lparr>bm_width = 1024, bm_height = 1024,
      bm_data = normalizeImageData
                  (drawBlurred ctx 3 (drawImageScaled ctx depthBitmap 1024 1024))\<rparr>
   \<and> (let mn = fst (minMaxLoop data (255, 0));
           mx = snd (minMaxLoop data (255, 0));
           out = normalizeImageData data
       in length out = length data
          \<and> (\<forall>i. 4 * i < length data \<longrightarrow>
                 mn \<le> unat (data ! (4 * i)) \<and> unat (data ! (4 * i)) \<le> mx)
          \<and> ((\<exists>i j. 4 * i < length data \<and> 4 * j < length data
                      \<and> data ! (4 * i) \<noteq> data ! (4 * j)) \<longrightarrow>
               mn < mx
               \<and> (\<forall>i. 4 * i < length data \<longrightarrow>
                     out ! (4 * i) =
                       toUint8Clamp ((real (unat (data ! (4 * i))) - real mn)
                                      / (real mx - real mn) * 255)
                     \<and> (unat (data ! (4 * i)) = mn \<longrightarrow> out ! (4 * i) = 0)
                     \<and> (unat (data ! (4 * i)) = mx \<longrightarrow> out ! (4 * i) = 255))
               \<and> (\<forall>i. 4 * i + 3 < length data \<longrightarrow>
                     out ! (4 * i + 1) = out ! (4 * i) \<and> out ! (4 * i + 2) = out ! (4 * i)
                     \<and> out ! (4 * i + 3) = data ! (4 * i + 3))
               \<and> (\<exists>i. 4 * i < length data \<and> out ! (4 * i) = 0)
               \<and> (\<exists>i. 4 * i < length data \<and> out ! (4 * i) = 255))
          \<and> ((\<forall>i j. 4 * i < length data \<and> 4 * j < length data \<longrightarrow>
                      data ! (4 * i) = data ! (4 * j)) \<longrightarrow>
               out = data))"
proof -
  define mn where "mn = fst (minMaxLoop data (255, 0))"
  define mx where "mx = snd (minMaxLoop data (255, 0))"
  define out where "out = normalizeImageData data"
  have out_eq: "out = (if mn < mx then normalizeLoop mn (int mx - int mn) data else data)"
    unfolding out_def mn_def mx_def by (rule normalizeImageData_eq)
  have len: "length out = length data"
    unfolding out_eq by (simp add: normalizeLoop_length)
  have bounds: "mn \<le> unat (data ! (4 * i)) \<and> unat (data ! (4 * i)) \<le> mx"
    if "4 * i < length data" for i
    unfolding mn_def mx_def using that by (rule minMaxLoop_pixel)
  have attained: "(\<exists>i. 4 * i < length data \<and> unat (data ! (4 * i)) = mn)
       \<and> (\<exists>i. 4 * i < length data \<and> unat (data ! (4 * i)) = mx)" if "mn < mx"
    using that unfolding mn_def mx_def by (rule minMaxLoop_span)
  have nonuniform: "mn < mx"
    if "4 * i < length data" "4 * j < length data" "data ! (4 * i) \<noteq> data ! (4 * j)" for i j
  proof (rule ccontr)
    assume "\<not> mn < mx"
    with bounds[OF that(1)] bounds[OF that(2)]
    have "unat (data ! (4 * i)) = unat (data ! (4 * j))" by linarith
    then have "data ! (4 * i) = data ! (4 * j)" by (simp add: word_unat_eq_iff)
    with that(3) show False by contradiction
  qed
  have red: "out ! (4 * i) =
               toUint8Clamp ((real (unat (data ! (4 * i))) - real mn) / (real mx - real mn) * 255)"
    if "mn < mx" "4 * i < length data" for i
    using that by (simp add: out_eq normalizeLoop_red normalized_def)
  have lo: "out ! (4 * i) = 0"
    if "mn < mx" "4 * i < length data" "unat (data ! (4 * i)) = mn" for i
    unfolding red[OF that(1,2)] that(3) by (simp add: toUint8Clamp_zero)
  have hi: "out ! (4 * i) = 255"
    if "mn < mx" "4 * i < length data" "unat (data ! (4 * i)) = mx" for i
  proof -
    from that(1) have "(real mx - real mn) / (real mx - real mn) * 255 = 255" by simp
    then show ?thesis unfolding red[OF that(1,2)] that(3) by (simp only: toUint8Clamp_255)
  qed
  have rest: "out ! (4 * i + 1) = out ! (4 * i) \<and> out ! (4 * i + 2) = out ! (4 * i)
                     \<and> out ! (4 * i + 3) = data ! (4 * i + 3)"
    if "mn < mx" "4 * i + 3 < length data" for i
    using that(1) normalizeLoop_pixel[OF that(2)] by (simp add: out_eq)
  have span: "(\<exists>i. 4 * i < length data \<and> out ! (4 * i) = 0)
            \<and> (\<exists>i. 4 * i < length data \<and> out ! (4 * i) = 255)" if "mn < mx"
    using attained[OF that] lo[OF that] hi[OF that] by blast
  have uniform: "out = data"
    if u: "\<forall>i j. 4 * i < length data \<and> 4 * j < length data \<longrightarrow> data ! (4 * i) = data ! (4 * j)"
  proof -
    have "\<not> mn < mx"
    proof
      assume lt: "mn < mx"
      from attained[OF lt] obtain i j where
        "4 * i < length data" "unat (data ! (4 * i)) = mn"
        "4 * j < length data" "unat (data ! (4 * j)) = mx" by blast
      moreover from this u have "data ! (4 * i) = data ! (4 * j)" by blast
      ultimately have "mn = mx" by simp
      with lt show False by simp
    qed
    then show ?thesis by (simp add: out_eq)
  qed
  have shape: "processDepthMap ctx depthBitmap =
     \<lparr>bm_width = 1024, bm_height = 1024,
      bm_data = normalizeImageData
                  (drawBlurred ctx 3 (drawImageScaled ctx depthBitmap 1024 1024))\<rparr>"
    by (simp add: processDepthMap_def Let_def)
  have scaled: "mn < mx
               \<and> (\<forall>i. 4 * i < length data \<longrightarrow>
                     out ! (4 * i) =
                       toUint8Clamp ((real (unat (data ! (4 * i))) - real mn)
                                      / (real mx - real mn) * 255)
                     \<and> (unat (data ! (4 * i)) = mn \<longrightarrow> out ! (4 * i) = 0)
                     \<and> (unat (data ! (4 * i)) = mx \<longrightarrow> out ! (4 * i) = 255))
               \<and> (\<forall>i. 4 * i + 3 < length data \<longrightarrow>
                     out ! (4 * i + 1) = out ! (4 * i) \<and> out ! (4 * i + 2) = out ! (4 * i)
                     \<and> out ! (4 * i + 3) = data ! (4 * i + 3))
               \<and> (\<exists>i. 4 * i < length data \<and> out ! (4 * i) = 0)
               \<and> (\<exists>i. 4 * i < length data \<and> out ! (4 * i) = 255)"
    if ex: "\<exists>i j. 4 * i < length data \<and> 4 * j < length data \<and> data ! (4 * i) \<noteq> data ! (4 * j)"
  proof -
    from ex obtain i j where "4 * i < length data" "4 * j < length data"
      "data ! (4 * i) \<noteq> data ! (4 * j)" by blast
    then have lt: "mn < mx" by (rule nonuniform)
    have a: "\<forall>i. 4 * i < length data \<longrightarrow>
                     out ! (4 * i) =
                       toUint8Clamp ((real (unat (data ! (4 * i))) - real mn)
                                      / (real mx - real mn) * 255)
                     \<and> (unat (data ! (4 * i)) = mn \<longrightarrow> out ! (4 * i) = 0)
                     \<and> (unat (data ! (4 * i)) = mx \<longrightarrow> out ! (4 * i) = 255)"
      using red[OF lt] lo[OF lt] hi[OF lt] by (intro allI impI conjI)
    have b: "\<forall>i. 4 * i + 3 < length data \<longrightarrow>
                     out ! (4 * i + 1) = out ! (4 * i) \<and> out ! (4 * i + 2) = out ! (4 * i)
                     \<and> out ! (4 * i + 3) = data ! (4 * i + 3)"
      using rest[OF lt] by (intro allI impI)
    show ?thesis by (rule conjI[OF lt conjI[OF a conjI[OF b span[OF lt]]]])
  qed
  have bounds_all: "\<forall>i. 4 * i < length data \<longrightarrow>
                 mn \<le> unat (data ! (4 * i)) \<and> unat (data ! (4 * i)) \<le> mx"
    using bounds by (intro allI impI)
  show ?thesis
    unfolding Let_def mn_def[symmetric] mx_def[symmetric] out_def[symmetric]
    by (rule conjI[OF shape conjI[OF len conjI[OF bounds_all
          conjI[OF impI[OF scaled] impI[OF uniform]]]]])
qed

lemma minMaxLoop_solid:
  "minMaxLoop (concat (replicate n [r, g, b, a])) acc =
     (if n = 0 then acc else (min (fst acc) (unat r), max (snd acc) (unat r)))"
proof (induction n arbitrary: acc)
  case 0
  show ?case by (cases acc) simp
next
  case (Suc n)
  have "minMaxLoop (concat (replicate (Suc n) [r, g, b, a])) acc =
          minMaxLoop (concat (replicate n [r, g, b, a])) (min (fst acc) (unat r), max (snd acc) (unat r))"
    using minMaxLoop_step[of r g b a "concat (replicate n [r, g, b, a])" acc] by simp
  then show ?case unfolding Suc.IH by simp
qed

lemma normalizeImageData_solid:
  "normalizeImageData (concat (replicate n [r, g, b, a])) = concat (replicate n [r, g, b, a])"
proof -
  have "unat r \<le> 255" using unat_byte_less[of r] by simp
  then have "min 255 (unat r) = unat r" by simp
  then show ?thesis
    unfolding normalizeImageData_eq minMaxLoop_solid by simp
qed

lemma normalizeImageData_example:
  "normalizeImageData depthExample =
     [0, 0, 0, 3,  255, 255, 255, 6,  128, 128, 128, 9,  38, 38, 38, 0]"
  by (simp add: normalizeImageData_def depthExample_def normalized_def toUint8Clamp_def Let_def)

lemma minMaxLoop_example: "minMaxLoop depthExample (255, 0) = (10, 30)"
  by (simp add: depthExample_def Let_def)

theorem processDepthMap_normalizes_witness:
  "4 * 0 < length depthExample \<and> 4 * 1 < length depthExample
   \<and> depthExample ! (4 * 0) \<noteq> depthExample ! (4 * 1)
   \<and> fst (minMaxLoop depthExample (255, 0)) = 10
   \<and> snd (minMaxLoop depthExample (255, 0)) = 30
   \<and> normalizeImageData depthExample =
       [0, 0, 0, 3,  255, 255, 255, 6,  128, 128, 128, 9,  38, 38, 38, 0]
   \<and> bm_width (processDepthMap solidCanvas uniformDepth) = 1024"
  using processDepthMap_normalizes[of solidCanvas uniformDepth depthExample]
  by (simp add: normalizeImageData_example minMaxLoop_example) (simp add: depthExample_def)

lemma normalizeImageData_green_only:
  "normalizeImageData [10, 0, 0, 255,  10, 255, 0, 255] = [10, 0, 0, 255,  10, 255, 0, 255]"
  by (simp add: normalizeImageData_def Let_def)

text \<open>
  Claim C2, as the specification states it: for uniform input the output equals the
  input unchanged.

  This fails for every input that is not 1024 by 1024: the one-pixel grey bitmap comes
  back as 1024 by 1024 pixels of the same grey. The pixel values pass through
  unchanged, the bitmap does not. (The output is 1024 pixels wide whatever the canvas
  does, by the first part of the theorem above.) And the channel that is scanned is the
  red one: two pixels that differ in green only, and so in luminance, are left as they
  are, neither rescaled nor made grey.
\<close>

theorem processDepthMap_uniform_not_input:
  "bm_data uniformDepth = [90, 90, 90, 255]
   \<and> processDepthMap solidCanvas uniformDepth =
       \<lparr>bm_width = 1024, bm_height = 1024,
        bm_data = concat (replicate (1024 * 1024) [90, 90, 90, 255])\<rparr>
   \<and> processDepthMap solidCanvas uniformDepth \<noteq> uniformDepth
   \<and> normalizeImageData [10, 0, 0, 255,  10, 255, 0, 255] = [10, 0, 0, 255,  10, 255, 0, 255]"
  by (simp add: processDepthMap_def solidCanvas_def uniformDepth_def Let_def
      normalizeImageData_solid normalizeImageData_green_only)

section \<open>Properties of the batch renderer\<close>



lemma convertSvgToBitmap_default_size:
  assumes "readAsText env svgFile = Inr svgText" and "btoa svgText = Inr encoded"
    and "loadImage env (''data:image/svg+xml;base64,'' @ encoded) = Inr img"
    and "img_width img = 0" and "img_height img = 0"
    and "drawImage env img 200 200 = Inr pixels"
  shows "convertSvgToBitmap env svgFile =
           settled (createImageBitmapOfCanvas env
                      \<lparr>bm_width = 200, bm_height = 200, bm_data = pixels\<rparr>)"
  using assms by (simp add: convertSvgToBitmap_def)








lemma generateResults_base:
  "generateResults env st designFiles =
     (case captureFrame env \<lparr>filtersEnabled = False, designTexture = designTexture (stage st)\<rparr> of
        Inl error \<Rightarrow> Rejected error
      | Inr originalImage \<Rightarrow>
          (case designLoop env 0 designFiles
                  (st\<lparr>results := [\<lparr>res_name = ''Original Mockup'', res_image = originalImage\<rparr>]\<rparr>) of
             None \<Rightarrow> Pending
           | Some st' \<Rightarrow> Resolved st'))"
proof -
  let ?sc = "\<lparr>filtersEnabled = False, designTexture = designTexture (stage st)\<rparr>"
  have sc: "(stage st)\<lparr>filtersEnabled := False\<rparr> = ?sc" by (cases "stage st") simp
  have restored:
    "st\<lparr>results := r,
        stage := \<lparr>filtersEnabled = filtersEnabled (stage st),
                  designTexture = designTexture (stage st)\<rparr>\<rparr> = st\<lparr>results := r\<rparr>" for r
    by (cases st, cases "stage st") simp
  show ?thesis
    by (simp add: generateResults_def Let_def sc pushResult_def restored captureFrame_def
        split: sum.splits)
qed





lemma captureFrame_demo:
  "captureFrame demoBrowser \<lparr>filtersEnabled = False, designTexture = whiteTexture\<rparr>
     = Inr ''frame base''"
  "captureFrame lostContextBrowser \<lparr>filtersEnabled = False, designTexture = whiteTexture\<rparr>
     = Inl (JsError ''WebGL context lost'')"
  by (simp_all add: captureFrame_def demoBrowser_def lostContextBrowser_def)






text \<open>
  Claim C5, as the specification states it: \<^verbatim>\<open>generateResults([])\<close> returns exactly one
  result, named "Original".

  The single result is named "Original Mockup". And when the capture throws, the call
  throws and returns no result.
\<close>

theorem generateResults_empty_not_named_Original:
  "generateResults demoBrowser demoRenderer [] =
     Resolved (demoRenderer\<lparr>results :=
                 [\<lparr>res_name = ''Original Mockup'', res_image = ''frame base''\<rparr>]\<rparr>)
   \<and> map res_name (results (fulfilled (generateResults demoBrowser demoRenderer [])))
       \<noteq> [''Original'']
   \<and> generateResults lostContextBrowser demoRenderer [] = Rejected (JsError ''WebGL context lost'')"
  by (simp add: generateResults_def demoBrowser_def lostContextBrowser_def demoRenderer_def
      captureFrame_def pushResult_def Let_def)

text \<open>
  Claim C5, amended: when the capture of the original, taken with the filter disabled,
  succeeds, \<^verbatim>\<open>generateResults([])\<close> returns exactly one result, named "Original Mockup",
  holding that capture, and the renderer is otherwise as before; when that capture
  throws, \<^verbatim>\<open>generateResults([])\<close> throws the same error.
\<close>

theorem generateResults_empty:
  "(captureFrame env \<lparr>filtersEnabled = False, designTexture = designTexture (stage st)\<rparr>
      = Inr originalImage
    \<longrightarrow> generateResults env st [] =
          Resolved (st\<lparr>results :=
                       [\<lparr>res_name = ''Original Mockup'', res_image = originalImage\<rparr>]\<rparr>)
        \<and> length (results (fulfilled (generateResults env st []))) = 1
        \<and> res_name (results (fulfilled (generateResults env st [])) ! 0) = ''Original Mockup'')
   \<and> (captureFrame env \<lparr>filtersEnabled = False, designTexture = designTexture (stage st)\<rparr>
        = Inl error
      \<longrightarrow> generateResults env st [] = Rejected error)"
  by (simp add: generateResults_base)

theorem generateResults_empty_witness:
  "captureFrame demoBrowser \<lparr>filtersEnabled = False, designTexture = whiteTexture\<rparr>
     = Inr ''frame base''
   \<and> results (fulfilled (generateResults demoBrowser demoRenderer [])) =
       [\<lparr>res_name = ''Original Mockup'', res_image = ''frame base''\<rparr>]
   \<and> captureFrame lostContextBrowser \<lparr>filtersEnabled = False, designTexture = whiteTexture\<rparr>
       = Inl (JsError ''WebGL context lost'')
   \<and> generateResults lostContextBrowser demoRenderer [] = Rejected (JsError ''WebGL context lost'')"
proof -
  have tex: "designTexture (stage demoRenderer) = whiteTexture"
    by (simp add: demoRenderer_def)
  from generateResults_empty[of demoBrowser demoRenderer "''frame base''", unfolded tex]
    generateResults_empty[of lostContextBrowser demoRenderer _ "JsError ''WebGL context lost''",
      unfolded tex]
    captureFrame_demo
  show ?thesis by simp
qed

section \<open>Properties of the fragment shader\<close>

lemma clamp_unit: "0 \<le> clamp x 0 1 \<and> clamp x 0 1 \<le> 1"
  by (simp add: clamp_def)

text \<open>
  Claim C1: for every output pixel the fragment shader computes exactly what the
  specification says: the base colour \<open>B\<close> and the depth \<open>D\<close> are sampled at the pixel's
  coordinate, the design is sampled at the coordinate plus \<open>(D - 0.5) * strength * 0.2\<close>,
  clamped into \<open>[0, 1]\<close> on each axis, the composite is
  \<open>mix B (B * design.rgb) (design.a * 0.8)\<close> if and only if the design's alpha exceeds
  0.1 and \<open>B\<close> otherwise, it is multiplied by \<open>1 - shadow * shadowPower * 0.6\<close>, then
  \<open>highlight * highlightPower * 0.4\<close> is added, and the result is clamped to \<open>[0, 1]\<close>.
  The output is opaque.
\<close>

theorem fragmentMain_renderSpec:
  "fragmentMain u coord = renderSpec u coord
   \<and> 0 \<le> c_r (fragmentMain u coord) \<and> c_r (fragmentMain u coord) \<le> 1
   \<and> 0 \<le> c_g (fragmentMain u coord) \<and> c_g (fragmentMain u coord) \<le> 1
   \<and> 0 \<le> c_b (fragmentMain u coord) \<and> c_b (fragmentMain u coord) \<le> 1
   \<and> c_a (fragmentMain u coord) = 1"
proof -
  have eq: "fragmentMain u coord = renderSpec u coord"
    by (simp add: fragmentMain_def renderSpec_def renderChannel_def texture2D_def rgb_def
        vec2_add_scalar_def vec2_clamp_def vec3_mul_def vec3_scale_def vec3_add_scalar_def
        vec3_mix_def vec3_clamp_def Let_def)
  show ?thesis
    unfolding eq
    by (simp add: renderSpec_def renderChannel_def Let_def clamp_unit)
qed

lemma renderChannel_example:
  "renderChannel (1 / 2) 1 1 (1 / 5) (3 / 10) 0 (1 / 5) = 241 / 500"
  "renderChannel (1 / 2) 0 1 (1 / 5) (3 / 10) 0 (1 / 5) = 241 / 2500"
  "renderChannel (1 / 2) 0 0 (1 / 5) (3 / 10) 0 (1 / 5) = 241 / 500"
  by (simp_all add: renderChannel_def mix_def clamp_def Let_def)

theorem fragmentMain_renderSpec_witness:
  "fragmentMain exampleUniforms (0.495, 0.3) = \<lparr>c_r = 0.482, c_g = 0.0964, c_b = 0.0964, c_a = 1\<rparr>"
proof -
  have "renderSpec exampleUniforms (0.495, 0.3) =
          \<lparr>c_r = 0.482, c_g = 0.0964, c_b = 0.0964, c_a = 1\<rparr>"
    by (simp add: renderSpec_def exampleUniforms_def clamp_def Let_def renderChannel_example)
  then show ?thesis
    using fragmentMain_renderSpec[of exampleUniforms "(0.495, 0.3)"] by simp
qed

section \<open>Properties of the depth provider\<close>

lemma getDepthMap_falls_back:
  "getDepthMap env f =
     (if isl (getDepthMapFAL env f) then createFallbackDepthMap env f else getDepthMapFAL env f)"
  by (simp add: getDepthMap_def split: sum.splits)

lemma getDepthMap_succeeds_when_file_decodes:
  assumes "createImageBitmapOfFile env f = Inr img"
  shows "\<exists>depthBitmap. getDepthMap env f = Inr depthBitmap"
  using assms by (simp add: getDepthMap_def createFallbackDepthMap_def split: sum.splits)

lemma initializeMockupProcessing_never_initializes:
  "isInitialized (initializeMockupProcessing env continue f st) = isInitialized st
   \<and> take 7 (processingStep (initializeMockupProcessing env continue f st)) = ''Error: ''
   \<and> depthMapMethod (initializeMockupProcessing env continue f st) \<in> {Undefined, depthMapMethod st}"
  by (simp add: initializeMockupProcessing_def processingFailed_def property_def Let_def
      split: sum.splits)

text \<open>
  Claim C8: \<^verbatim>\<open>getDepthMap\<close> never fails and resolves to a record pairing the depth bitmap
  with the label of the method used.

  The code resolves to the bitmap itself. With FAL answering, a photo gives the FAL
  bitmap; its \<^verbatim>\<open>method\<close> and \<^verbatim>\<open>depthMap\<close> properties are \<^verbatim>\<open>undefined\<close>, and the caller ends
  in its \<^verbatim>\<open>catch\<close> block, never initialised. Without network the photo gives the
  fallback bitmap, and a file that does not decode makes \<^verbatim>\<open>getDepthMap\<close> fail.
\<close>

theorem getDepthMap_resolves_to_bare_bitmap:
  "getDepthMap falServices photoFile = Inr \<lparr>bm_width = 1, bm_height = 1, bm_data = [7, 7, 7, 255]\<rparr>
   \<and> property (JsBitmap (projr (getDepthMap falServices photoFile))) ''method'' = Undefined
   \<and> property (JsBitmap (projr (getDepthMap falServices photoFile))) ''depthMap'' = Undefined
   \<and> initializeMockupProcessing falServices readyContinuation photoFile freshApp =
       \<lparr>depthMapMethod = Undefined, processingStep = ''Error: depthMap is undefined'',
        isProcessing = False, isInitialized = False\<rparr>
   \<and> getDepthMap offlineServices photoFile =
       Inr \<lparr>bm_width = 1, bm_height = 1, bm_data = [128, 128, 128, 128]\<rparr>
   \<and> getDepthMap offlineServices undecodableFile =
       Inl (JsError ''The source image could not be decoded.'')"
  by (simp add: getDepthMap_def getDepthMapFAL_def createFallbackDepthMap_def falServices_def
      offlineServices_def photoFile_def undecodableFile_def property_def
      initializeMockupProcessing_def processingFailed_def message_def freshApp_def
      readyContinuation_def Let_def numeral_eq_Suc)

end
